theory Spec2Isabelle
  imports Main "HOL-Library.Sublist" "HOL-Library.Log_Nat"
begin

section \<open>JavaScript values, errors and promises\<close>

text \<open>
  A thrown JavaScript error: its \<open>name\<close> and its \<open>message\<close>. The source reads
  \<open>e.message\<close> (shareSpreadsheet) and renders an error inside a template literal
  (the create tool), which is \<open>Error.prototype.toString\<close>.
\<close>

datatype js_error = JsError (err_name: string) (message: string)

definition error_toString :: "js_error \<Rightarrow> string" where
  "error_toString e =
     (if err_name e = [] then message e
      else if message e = [] then err_name e
      else err_name e @ '': '' @ message e)"

text \<open>A value that may be \<open>undefined\<close> or \<open>null\<close>, where a template literal tells them apart.\<close>

datatype 'a nullable = Undefined | Null | Defined 'a

definition render_nullable :: "string nullable \<Rightarrow> string" where
  "render_nullable v = (case v of Undefined \<Rightarrow> ''undefined'' | Null \<Rightarrow> ''null'' | Defined s \<Rightarrow> s)"

text \<open>
  Truthiness of an optional string: \<open>undefined\<close>, \<open>null\<close> (both \<open>None\<close>) and the empty
  string are falsy.
\<close>

definition truthy :: "string option \<Rightarrow> bool" where
  "truthy v = (case v of None \<Rightarrow> False | Some s \<Rightarrow> s \<noteq> [])"

text \<open>\<open>Array.prototype.join\<close> with the default separator, on an array of strings.\<close>

fun js_join :: "string list \<Rightarrow> string" where
  "js_join [] = []"
| "js_join [x] = x"
| "js_join (x # y # ys) = x @ '','' @ js_join (y # ys)"

text \<open>A non-negative integer as a decimal string (the keys of an array under \<open>Object.entries\<close>).\<close>

definition digit_char :: "nat \<Rightarrow> char" where
  "digit_char d = ''0123456789'' ! d"

function string_of_nat :: "nat \<Rightarrow> string" where
  "string_of_nat n = (if n < 10 then [digit_char n] else string_of_nat (n div 10) @ [digit_char (n mod 10)])"
  by pat_completeness auto
termination
  by (relation "measure id") auto

definition apostrophe :: char where
  "apostrophe = CHR 0x27"

text \<open>
  A \<open>TypeError\<close> raised by reading a property of \<open>undefined\<close>; the message names the
  expression that was undefined (the engine's wording is not modelled).
\<close>

definition type_error :: "string \<Rightarrow> js_error" where
  "type_error expr = JsError ''TypeError'' expr"

subsection \<open>Numbers\<close>

text \<open>
  A JavaScript number is an IEEE 754 double: \<open>NaN\<close>, the two infinities, negative zero,
  or a finite value, kept as the rational it denotes (\<open>Num 0\<close> is positive zero). A finite
  double is a dyadic rational with a significand of at most 53 bits and a unit in the last
  place of at least \<open>2\<^sup>-\<^sup>1\<^sup>0\<^sup>7\<^sup>4\<close>.
\<close>

datatype js_number = NaN | PosInfinity | NegInfinity | NegZero | Num rat

definition pow2 :: "int \<Rightarrow> rat" where
  "pow2 e = (if 0 \<le> e then 2 ^ nat e else 1 / 2 ^ nat (- e))"

definition round_half_even :: "rat \<Rightarrow> int" where
  "round_half_even x =
     (let f = \<lfloor>x\<rfloor>; r = x - of_int f
      in if r < 1 / 2 then f else if 1 / 2 < r then f + 1 else if even f then f else f + 1)"

text \<open>
  Rounding an exact dyadic sum to the nearest double, ties to even: the unit in the last
  place is two to the power of the binary exponent of the value less 52, and never below
  the subnormal unit; a result of \<open>2\<^sup>1\<^sup>0\<^sup>2\<^sup>4\<close> or more overflows to an infinity.
\<close>

definition round_double :: "rat \<Rightarrow> js_number" where
  "round_double q =
     (if q = 0 then Num 0
      else let (n, d) = quotient_of q;
               e = max (bitlen \<bar>n\<bar> - bitlen d - 52) (- 1074);
               r = of_int (round_half_even (\<bar>q\<bar> / pow2 e)) * pow2 e
           in if 2 ^ 1024 \<le> r then (if 0 < q then PosInfinity else NegInfinity)
              else Num (if 0 < q then r else - r))"

text \<open>The \<open>+\<close> of two numbers.\<close>

fun js_add :: "js_number \<Rightarrow> js_number \<Rightarrow> js_number" where
  "js_add NaN y = NaN"
| "js_add x NaN = NaN"
| "js_add PosInfinity NegInfinity = NaN"
| "js_add NegInfinity PosInfinity = NaN"
| "js_add PosInfinity y = PosInfinity"
| "js_add x PosInfinity = PosInfinity"
| "js_add NegInfinity y = NegInfinity"
| "js_add x NegInfinity = NegInfinity"
| "js_add NegZero y = y"
| "js_add x NegZero = x"
| "js_add (Num a) (Num b) = round_double (a + b)"

text \<open>Truthiness of a number: \<open>NaN\<close> and the two zeros are falsy.\<close>

definition js_truthy :: "js_number \<Rightarrow> bool" where
  "js_truthy n = (n \<noteq> NaN \<and> n \<noteq> NegZero \<and> n \<noteq> Num 0)"

text \<open>An element that is \<open>undefined\<close> or \<open>null\<close> joins as the empty string.\<close>

definition join_optional :: "string option list \<Rightarrow> string" where
  "join_optional xs = js_join (map (\<lambda>x. case x of None \<Rightarrow> [] | Some s \<Rightarrow> s) xs)"

section \<open>The Sheets and Drive collaborator\<close>

subsection \<open>Data returned by the collaborator\<close>

record grid_properties =
  rowCount :: "int option"
  columnCount :: "int option"

record sheet_properties =
  sp_title :: "string option"
  sp_sheetId :: "int option"
  sp_index :: "int option"
  sp_gridProperties :: "grid_properties option"

record sheet =
  properties :: "sheet_properties option"

record spreadsheet_properties =
  ssp_title :: "string option"

record spreadsheet =
  ss_spreadsheetId :: "string option"
  ss_spreadsheetUrl :: "string nullable"
  ss_properties :: "spreadsheet_properties option"
  ss_sheets :: "sheet list option"

text \<open>One reply of \<open>spreadsheets.batchUpdate\<close>: \<open>addSheet\<close> may be missing, and so may its \<open>properties\<close>.\<close>

record batch_reply =
  addSheet :: "sheet_properties option option"

record batch_update_response =
  replies :: "batch_reply list option"

record update_values_response =
  updatedRange :: "string option"
  updatedCells :: "int option"

record batch_update_values_response =
  totalUpdatedCells :: "int option"

record permission =
  perm_id :: "string option"

record drive_file =
  file_id :: "string option"
  file_name :: "string option"
  parents :: "string list option"

subsection \<open>Requests sent to the collaborator\<close>

datatype dimension = ROWS | COLUMNS

text \<open>
  The entries of a \<open>spreadsheets.batchUpdate\<close> request body that the source builds:
  \<open>updateSheetProperties\<close> (sheetId, title; fields \<open>title\<close>), \<open>addSheet\<close> (title) and
  \<open>insertDimension\<close> (sheetId, dimension, startIndex, endIndex, inheritFromBefore).
\<close>

datatype sheet_request =
    UpdateSheetProperties "int option" string
  | AddSheet string
  | InsertDimension "int option" dimension js_number js_number bool

datatype request =
    SpreadsheetsCreate string
  | SpreadsheetsGet string
  | SpreadsheetsBatchUpdate string "sheet_request list"
  | ValuesGet string string
  | ValuesUpdate string string string "string list list"
  | ValuesBatchUpdate string string "(string \<times> string list) list"
  | SheetsCopyTo string "int option" string
  | PermissionsCreate string string string string bool
  | FilesGet string
  | FilesUpdate string string string
  | FilesList string

subsection \<open>Promises and the session state\<close>

datatype 'a settled = Fulfilled 'a | Rejected js_error

datatype console_entry = ConsoleLog string "js_error option" | ConsoleError string "js_error option"

text \<open>
  What a run leaves behind: the requests issued to the collaborator, in order; the console
  lines; and the rejections of promises that nothing awaits.
\<close>

record session =
  requests :: "request list"
  console :: "console_entry list"
  unhandled :: "js_error list"

definition session0 :: session where
  "session0 = \<lparr>requests = [], console = [], unhandled = []\<rparr>"

type_synonym 'a async = "session \<Rightarrow> 'a settled \<times> session"

definition resolve :: "'a \<Rightarrow> 'a async" where
  "resolve x s = (Fulfilled x, s)"

definition throw :: "js_error \<Rightarrow> 'a async" where
  "throw e s = (Rejected e, s)"

definition await :: "'a async \<Rightarrow> ('a \<Rightarrow> 'b async) \<Rightarrow> 'b async" where
  "await m k s = (case m s of (Fulfilled x, s') \<Rightarrow> k x s' | (Rejected e, s') \<Rightarrow> (Rejected e, s'))"

definition try_catch :: "'a async \<Rightarrow> (js_error \<Rightarrow> 'a async) \<Rightarrow> 'a async" where
  "try_catch m h s = (case m s of (Fulfilled x, s') \<Rightarrow> (Fulfilled x, s') | (Rejected e, s') \<Rightarrow> h e s')"

definition console_log :: "string \<Rightarrow> js_error option \<Rightarrow> unit async" where
  "console_log msg e s = (Fulfilled (), s\<lparr>console := console s @ [ConsoleLog msg e]\<rparr>)"

definition console_error :: "string \<Rightarrow> js_error option \<Rightarrow> unit async" where
  "console_error msg e s = (Fulfilled (), s\<lparr>console := console s @ [ConsoleError msg e]\<rparr>)"

text \<open>
  Calling an async function without awaiting it: its requests are issued, its result is
  dropped, and a rejection stays unhandled.
\<close>

definition floating :: "'a async \<Rightarrow> unit async" where
  "floating m s =
     (case m s of
        (Fulfilled x, s') \<Rightarrow> (Fulfilled (), s')
      | (Rejected e, s') \<Rightarrow> (Fulfilled (), s'\<lparr>unhandled := unhandled s' @ [e]\<rparr>))"

text \<open>
  The collaborator is a parameter: each endpoint answers from the requests issued so far
  and the arguments of the call, with data or with a thrown error.
\<close>

record sheets_client =
  spreadsheets_create :: "request list \<Rightarrow> string \<Rightarrow> spreadsheet option settled"
  spreadsheets_get :: "request list \<Rightarrow> string \<Rightarrow> spreadsheet settled"
  spreadsheets_batchUpdate :: "request list \<Rightarrow> string \<Rightarrow> sheet_request list \<Rightarrow> batch_update_response settled"
  values_get :: "request list \<Rightarrow> string \<Rightarrow> string \<Rightarrow> string list list option settled"
  values_update :: "request list \<Rightarrow> string \<Rightarrow> string \<Rightarrow> string list list \<Rightarrow> update_values_response settled"
  values_batchUpdate :: "request list \<Rightarrow> string \<Rightarrow> (string \<times> string list) list \<Rightarrow> batch_update_values_response settled"
  sheets_copyTo :: "request list \<Rightarrow> string \<Rightarrow> int option \<Rightarrow> string \<Rightarrow> sheet_properties settled"

record drive_client =
  permissions_create :: "request list \<Rightarrow> string \<Rightarrow> string \<Rightarrow> string \<Rightarrow> permission settled"
  files_get :: "request list \<Rightarrow> string \<Rightarrow> drive_file settled"
  files_update :: "request list \<Rightarrow> string \<Rightarrow> string \<Rightarrow> string \<Rightarrow> drive_file settled"
  files_list :: "request list \<Rightarrow> string \<Rightarrow> drive_file list option settled"

text \<open>The \<open>SpreadsheetContext\<close> of types.ts.\<close>

record ctx =
  sheets :: sheets_client
  drive :: drive_client
  folderId :: "string option"

text \<open>Issuing a request: it is appended to the trace and the collaborator's answer is awaited.\<close>

definition issue :: "request \<Rightarrow> (request list \<Rightarrow> 'a settled) \<Rightarrow> 'a async" where
  "issue r answer s = (answer (requests s), s\<lparr>requests := requests s @ [r]\<rparr>)"

section \<open>The operations of sheets.ts\<close>

text \<open>\<open>s.properties?.title\<close> and \<open>s.properties?.sheetId\<close>.\<close>

definition title_of :: "sheet \<Rightarrow> string option" where
  "title_of s = (case properties s of None \<Rightarrow> None | Some p \<Rightarrow> sp_title p)"

definition sheetId_of :: "sheet \<Rightarrow> int option" where
  "sheetId_of s = (case properties s of None \<Rightarrow> None | Some p \<Rightarrow> sp_sheetId p)"

text \<open>
  \<open>meta.data.sheets?.find(s => s.properties?.title === sheetTitle)\<close>, written out in
  renameSheet, addRows, addColumns and copySheet alike: \<open>undefined\<close> when the metadata has
  no sheets or no descriptor passes the strict comparison.
\<close>

definition find_sheet :: "sheet list option \<Rightarrow> string \<Rightarrow> sheet option" where
  "find_sheet shs sheetTitle =
     (case shs of None \<Rightarrow> None | Some xs \<Rightarrow> List.find (\<lambda>s. title_of s = Some sheetTitle) xs)"

text \<open>A result that is either one of the source's sentinel strings or a value.\<close>

datatype 'a or_message = Message string | Value 'a

definition get_spreadsheet :: "ctx \<Rightarrow> string \<Rightarrow> spreadsheet async" where
  "get_spreadsheet ctxt spreadsheetId =
     issue (SpreadsheetsGet spreadsheetId) (\<lambda>h. spreadsheets_get (sheets ctxt) h spreadsheetId)"

definition batch_update_spreadsheet :: "ctx \<Rightarrow> string \<Rightarrow> sheet_request list \<Rightarrow> batch_update_response async" where
  "batch_update_spreadsheet ctxt spreadsheetId body =
     issue (SpreadsheetsBatchUpdate spreadsheetId body)
       (\<lambda>h. spreadsheets_batchUpdate (sheets ctxt) h spreadsheetId body)"

definition grant_permission :: "ctx \<Rightarrow> string \<Rightarrow> string \<Rightarrow> string \<Rightarrow> permission async" where
  "grant_permission ctxt fileId role emailAddress =
     issue (PermissionsCreate fileId ''user'' role emailAddress True)
       (\<lambda>h. permissions_create (drive ctxt) h fileId role emailAddress)"

definition createSpreadSheet :: "string \<Rightarrow> ctx \<Rightarrow> (string \<times> string nullable) async" where
  "createSpreadSheet title ctxt =
     try_catch
       (await (issue (SpreadsheetsCreate title) (\<lambda>h. spreadsheets_create (sheets ctxt) h title))
          (\<lambda>spreadsheet.
             case spreadsheet of
               None \<Rightarrow> throw (JsError ''Error'' ''Failed to create spreadsheet: No spreadsheet ID returned'')
             | Some data \<Rightarrow>
                 if \<not> truthy (ss_spreadsheetId data)
                 then throw (JsError ''Error'' ''Failed to create spreadsheet: No spreadsheet ID returned'')
                 else
                   let id = the (ss_spreadsheetId data); link = ss_spreadsheetUrl data in
                   await (try_catch
                            (await (grant_permission ctxt id ''writer'' ''process.env.EMAIL_ID'') (\<lambda>_. resolve ()))
                            (\<lambda>permissionError. console_log ''Error granting permissions:'' (Some permissionError)))
                     (\<lambda>_. await (if truthy (folderId ctxt)
                                 then try_catch
                                   (await (issue (FilesGet id) (\<lambda>h. files_get (drive ctxt) h id))
                                      (\<lambda>file.
                                         let prev = (case parents file of None \<Rightarrow> [] | Some ps \<Rightarrow> js_join ps) in
                                         await (issue (FilesUpdate id (the (folderId ctxt)) prev)
                                                  (\<lambda>h. files_update (drive ctxt) h id (the (folderId ctxt)) prev))
                                           (\<lambda>_. resolve ())))
                                   (\<lambda>folderError. console_error ''Error moving to folder:'' (Some folderError))
                                 else resolve ())
                        (\<lambda>_. resolve (id, link)))))
       (\<lambda>error. await (console_error ''Error in createSpreadSheet:'' (Some error)) (\<lambda>_. throw error))"

definition listSheets :: "string \<Rightarrow> ctx \<Rightarrow> string option list async" where
  "listSheets spreadsheetId ctxt =
     await (get_spreadsheet ctxt spreadsheetId)
       (\<lambda>meta. resolve (case ss_sheets meta of None \<Rightarrow> [] | Some xs \<Rightarrow> map title_of xs))"

definition renameSheet :: "string \<Rightarrow> string \<Rightarrow> string \<Rightarrow> ctx \<Rightarrow> batch_update_response or_message async" where
  "renameSheet spreadsheetId sheetTitle newName ctxt =
     await (get_spreadsheet ctxt spreadsheetId)
       (\<lambda>meta.
          case find_sheet (ss_sheets meta) sheetTitle of
            None \<Rightarrow> resolve (Message ''Cannot find the sheet with the specified name'')
          | Some sheetObj \<Rightarrow>
              let body = [UpdateSheetProperties (sheetId_of sheetObj) newName] in
              await (batch_update_spreadsheet ctxt spreadsheetId body) (\<lambda>result. resolve (Value result)))"

record created_sheet =
  cs_sheetId :: "int option"
  cs_title :: "string option"
  cs_index :: "int option"
  cs_spreadsheetId :: string

definition createSheet :: "string \<Rightarrow> string \<Rightarrow> ctx \<Rightarrow> created_sheet async" where
  "createSheet spreadsheetId title ctxt =
     (let body = [AddSheet title] in
      await (batch_update_spreadsheet ctxt spreadsheetId body)
        (\<lambda>result.
           case replies result of
             None \<Rightarrow> throw (type_error ''result.data.replies'')
           | Some rs \<Rightarrow>
               (case rs of
                  [] \<Rightarrow> resolve \<lparr>cs_sheetId = None, cs_title = None, cs_index = None,
                                 cs_spreadsheetId = spreadsheetId\<rparr>
                | r # _ \<Rightarrow>
                    (case addSheet r of
                       None \<Rightarrow> throw (type_error ''result.data.replies[0].addSheet'')
                     | Some props \<Rightarrow>
                         resolve \<lparr>cs_sheetId = (case props of None \<Rightarrow> None | Some p \<Rightarrow> sp_sheetId p),
                                  cs_title = (case props of None \<Rightarrow> None | Some p \<Rightarrow> sp_title p),
                                  cs_index = (case props of None \<Rightarrow> None | Some p \<Rightarrow> sp_index p),
                                  cs_spreadsheetId = spreadsheetId\<rparr>))))"

record sheet_info =
  si_title :: "string option"
  si_sheetId :: "int option"
  si_gridProperties :: "grid_properties option"

record spreadsheet_info =
  info_title :: "string option"
  info_sheets :: "sheet_info list option"

definition spreadsheetInfo :: "string \<Rightarrow> ctx \<Rightarrow> spreadsheet_info async" where
  "spreadsheetInfo spreadsheetId ctxt =
     await (get_spreadsheet ctxt spreadsheetId)
       (\<lambda>meta.
          resolve
            \<lparr>info_title = (case ss_properties meta of None \<Rightarrow> None | Some p \<Rightarrow> ssp_title p),
             info_sheets =
               map_option
                 (map (\<lambda>s. \<lparr>si_title = title_of s, si_sheetId = sheetId_of s,
                              si_gridProperties =
                                (case properties s of None \<Rightarrow> None | Some p \<Rightarrow> sp_gridProperties p)\<rparr>))
                 (ss_sheets meta)\<rparr>)"

definition spreadsheet_query :: "string option \<Rightarrow> string" where
  "spreadsheet_query folder =
     ''mimeType='' @ [apostrophe] @ ''application/vnd.google-apps.spreadsheet'' @ [apostrophe] @
     (if truthy folder then '' and '' @ [apostrophe] @ the folder @ [apostrophe] @ '' in parents'' else [])"

definition listSpreadsheets :: "ctx \<Rightarrow> (string option \<times> string option) list option async" where
  "listSpreadsheets ctxt =
     (let query = spreadsheet_query (folderId ctxt) in
      await (issue (FilesList query) (\<lambda>h. files_list (drive ctxt) h query))
        (\<lambda>files. resolve (map_option (map (\<lambda>f. (file_id f, file_name f))) files)))"

record recipient =
  email_address :: string
  role :: string

record share_success =
  granted_email :: string
  granted_role :: string
  permissionId :: "string option"

record share_failure =
  failed_email :: string
  failure_error :: string

definition invalid_entry :: "recipient \<Rightarrow> bool" where
  "invalid_entry rec = (email_address rec = [] \<or> role rec \<notin> set [''reader'', ''commenter'', ''writer''])"

text \<open>The \<open>for\<close> loop of shareSpreadsheet, with its two accumulators.\<close>

fun share_loop ::
  "string \<Rightarrow> ctx \<Rightarrow> recipient list \<Rightarrow> share_success list \<Rightarrow> share_failure list \<Rightarrow>
   session \<Rightarrow> (share_success list \<times> share_failure list) settled \<times> session" where
  "share_loop spreadsheetId ctxt [] successes failures s = (Fulfilled (successes, failures), s)"
| "share_loop spreadsheetId ctxt (rec # rest) successes failures s =
     (if invalid_entry rec
      then share_loop spreadsheetId ctxt rest successes
             (failures @ [\<lparr>failed_email = email_address rec, failure_error = ''Invalid Entry''\<rparr>]) s
      else
        (case grant_permission ctxt spreadsheetId (role rec) (email_address rec) s of
           (Fulfilled perm, s') \<Rightarrow>
             share_loop spreadsheetId ctxt rest
               (successes @ [\<lparr>granted_email = email_address rec, granted_role = role rec,
                               permissionId = perm_id perm\<rparr>])
               failures s'
         | (Rejected e, s') \<Rightarrow>
             share_loop spreadsheetId ctxt rest successes
               (failures @ [\<lparr>failed_email = email_address rec, failure_error = message e\<rparr>]) s'))"

definition shareSpreadsheet ::
  "string \<Rightarrow> recipient list \<Rightarrow> ctx \<Rightarrow> (share_success list \<times> share_failure list) async" where
  "shareSpreadsheet spreadsheetId recipients ctxt = share_loop spreadsheetId ctxt recipients [] []"

text \<open>\<open>range ? `${sheet}!${range}` : sheet\<close>, with \<open>None\<close> for an absent range.\<close>

definition fullRange :: "string \<Rightarrow> string option \<Rightarrow> string" where
  "fullRange sheet rng = (if truthy rng then sheet @ ''!'' @ the rng else sheet)"

definition sheetData :: "string \<Rightarrow> string \<Rightarrow> string option \<Rightarrow> ctx \<Rightarrow> string list list async" where
  "sheetData spreadsheetId sheet rng ctxt =
     await (issue (ValuesGet spreadsheetId (fullRange sheet rng))
              (\<lambda>h. values_get (sheets ctxt) h spreadsheetId (fullRange sheet rng)))
       (\<lambda>vals. resolve (case vals of None \<Rightarrow> [] | Some v \<Rightarrow> v))"

definition updateCells ::
  "string \<Rightarrow> string \<Rightarrow> string option \<Rightarrow> string list list \<Rightarrow> ctx \<Rightarrow> update_values_response async" where
  "updateCells spreadsheetId sheet rng data ctxt =
     await (issue (ValuesUpdate spreadsheetId (fullRange sheet rng) ''USER_ENTERED'' data)
              (\<lambda>h. values_update (sheets ctxt) h spreadsheetId (fullRange sheet rng) data))
       (\<lambda>result. resolve result)"

text \<open>\<open>Object.entries\<close> of an array: its indices, as decimal strings, paired with its elements.\<close>

definition object_entries :: "'a list \<Rightarrow> (string \<times> 'a) list" where
  "object_entries xs = zip (map string_of_nat [0..<length xs]) xs"

definition batchUpdate ::
  "string \<Rightarrow> string \<Rightarrow> string list list \<Rightarrow> ctx \<Rightarrow> batch_update_values_response async" where
  "batchUpdate spreadsheetId sheet ranges ctxt =
     (let data = map (\<lambda>(r, vals). (sheet @ ''!'' @ r, vals)) (object_entries ranges) in
      await (issue (ValuesBatchUpdate spreadsheetId ''USER_ENTERED'' data)
               (\<lambda>h. values_batchUpdate (sheets ctxt) h spreadsheetId data))
        (\<lambda>result. resolve result))"

text \<open>\<open>n || 0\<close> on a number.\<close>

definition or_zero :: "js_number \<Rightarrow> js_number" where
  "or_zero n = (if js_truthy n then n else Num 0)"

definition addRows ::
  "string \<Rightarrow> string \<Rightarrow> js_number \<Rightarrow> js_number \<Rightarrow> ctx \<Rightarrow> batch_update_response or_message async" where
  "addRows spreadsheetId sheet count startRow ctxt =
     await (get_spreadsheet ctxt spreadsheetId)
       (\<lambda>meta.
          case find_sheet (ss_sheets meta) sheet of
            None \<Rightarrow> resolve (Message ''Sheet Not found'')
          | Some sheetObj \<Rightarrow>
              let sheetId = sheetId_of sheetObj;
                  requestBody =
                    [InsertDimension sheetId ROWS (or_zero startRow) (js_add (or_zero startRow) count)
                       (js_truthy startRow)]
              in await (batch_update_spreadsheet ctxt spreadsheetId requestBody)
                   (\<lambda>result. resolve (Value result)))"

definition addColumns ::
  "string \<Rightarrow> string \<Rightarrow> js_number \<Rightarrow> js_number \<Rightarrow> ctx \<Rightarrow> batch_update_response or_message async" where
  "addColumns spreadsheetId sheet count startColumn ctxt =
     await (get_spreadsheet ctxt spreadsheetId)
       (\<lambda>meta.
          case find_sheet (ss_sheets meta) sheet of
            None \<Rightarrow> resolve (Message ''Sheet not found'')
          | Some sheetObj \<Rightarrow>
              let sheetId = sheetId_of sheetObj;
                  requestBody =
                    [InsertDimension sheetId COLUMNS (or_zero startColumn)
                       (js_add (or_zero startColumn) count) (js_truthy startColumn)]
              in await (batch_update_spreadsheet ctxt spreadsheetId requestBody)
                   (\<lambda>result. resolve (Value result)))"

record copy_result =
  copy :: sheet_properties
  rename :: "batch_update_response option"

definition copySheet ::
  "string \<Rightarrow> string \<Rightarrow> string \<Rightarrow> string \<Rightarrow> ctx \<Rightarrow> copy_result or_message async" where
  "copySheet srcSpreadsheet srcSheet dstSpreadsheet dstSheet ctxt =
     await (get_spreadsheet ctxt srcSpreadsheet)
       (\<lambda>srcMeta.
          case find_sheet (ss_sheets srcMeta) srcSheet of
            None \<Rightarrow> resolve (Message ''Source sheet not found'')
          | Some sheetObj \<Rightarrow>
              await (issue (SheetsCopyTo srcSpreadsheet (sheetId_of sheetObj) dstSpreadsheet)
                       (\<lambda>h. sheets_copyTo (sheets ctxt) h srcSpreadsheet (sheetId_of sheetObj) dstSpreadsheet))
                (\<lambda>copyRes.
                   let copyId = sp_sheetId copyRes in
                   if dstSheet \<noteq> [] \<and> sp_title copyRes \<noteq> Some dstSheet
                   then
                     let renameBody = [UpdateSheetProperties copyId dstSheet] in
                     await (batch_update_spreadsheet ctxt dstSpreadsheet renameBody)
                       (\<lambda>renameRes. resolve (Value \<lparr>copy = copyRes, rename = Some renameRes\<rparr>))
                   else resolve (Value \<lparr>copy = copyRes, rename = None\<rparr>)))"

section \<open>The registered tools of index.ts\<close>

text \<open>The response envelope: \<open>{ content: [{ type: "text", text }] }\<close>.\<close>

record content_item =
  item_type :: string
  item_text :: string

record envelope =
  content :: "content_item list"

definition text_envelope :: "string \<Rightarrow> envelope" where
  "text_envelope t = \<lparr>content = [\<lparr>item_type = ''text'', item_text = t\<rparr>]\<rparr>"

text \<open>
  A tool request after schema validation: the tool's name with its parsed arguments
  (\<open>z.string()\<close> as a string, \<open>z.number()\<close> as a number, \<open>z.array\<close> as a list).
\<close>

datatype tool_request =
    Create string
  | ListSheets string
  | RenameSheet string string string
  | CreateSheet string string
  | SpreadsheetInfo string
  | ListSpreadsheets
  | ShareSpreadsheet string "recipient list"
  | SheetData string string string
  | UpdateCells string string string "string list list"
  | BatchUpdate string string "string list list"
  | AddRows string string js_number js_number
  | AddColumns string string js_number js_number
  | CopySheet string string string string

text \<open>What a template literal makes of an object, of a promise and of an array of objects.\<close>

definition object_Object :: string where
  "object_Object = ''[object Object]''"

definition object_Promise :: string where
  "object_Promise = ''[object Promise]''"

definition render_objects :: "'a list \<Rightarrow> string" where
  "render_objects xs = js_join (map (\<lambda>_. object_Object) xs)"

text \<open>
  The callback registered with \<open>server.tool\<close> for each tool. Only \<open>create\<close> wraps its
  body in try/catch; updateCells, batchUpdate, addRows, addColumns and copySheet call
  their operation without \<open>await\<close>.
\<close>

fun tool_callback :: "tool_request \<Rightarrow> ctx \<Rightarrow> envelope async" where
  "tool_callback (Create title) ctxt =
     try_catch
       (await (console_log (''Creating spreadsheet with title: '' @ title) None)
          (\<lambda>_. await (createSpreadSheet title ctxt)
             (\<lambda>(id, link).
                resolve (text_envelope (''Created spreadsheet successfully with id: '' @ id @
                           ''. Visit at '' @ render_nullable link)))))
       (\<lambda>error. await (console_error ''Error creating spreadsheet:'' (Some error))
          (\<lambda>_. resolve (text_envelope (''Failed to create spreadsheet: '' @ error_toString error))))"
| "tool_callback (ListSheets spreadsheetId) ctxt =
     await (listSheets spreadsheetId ctxt)
       (\<lambda>res. resolve (text_envelope (''List of all the sheets present: '' @ join_optional res)))"
| "tool_callback (RenameSheet spreadsheetId sheetTitle newSheetName) ctxt =
     await (renameSheet spreadsheetId sheetTitle newSheetName ctxt)
       (\<lambda>res. if res = Message ''Cannot find the sheet with the specified name''
              then resolve (text_envelope ''Cannot find the sheet with the provided name'')
              else resolve (text_envelope ''Sheet renamed successfully!''))"
| "tool_callback (CreateSheet spreadsheetId title) ctxt =
     await (createSheet spreadsheetId title ctxt)
       (\<lambda>res. resolve (text_envelope (''Following sheet was created: '' @ object_Object)))"
| "tool_callback (SpreadsheetInfo spreadsheetId) ctxt =
     await (spreadsheetInfo spreadsheetId ctxt)
       (\<lambda>res. resolve (text_envelope (''Spreadsheet Info: '' @ object_Object)))"
| "tool_callback ListSpreadsheets ctxt =
     await (listSpreadsheets ctxt)
       (\<lambda>res. resolve (text_envelope (''List of spreadsheets: '' @
                 (case res of None \<Rightarrow> ''undefined'' | Some fs \<Rightarrow> render_objects fs))))"
| "tool_callback (ShareSpreadsheet spreadsheetId recipients) ctxt =
     await (shareSpreadsheet spreadsheetId recipients ctxt)
       (\<lambda>(successes, failures).
          resolve (text_envelope (''Following are the successes: '' @ render_objects successes @
                     '' and failures: '' @ render_objects failures)))"
| "tool_callback (SheetData spreadsheetId sheetName rng) ctxt =
     await (sheetData spreadsheetId sheetName (Some rng) ctxt)
       (\<lambda>res. resolve (text_envelope (''The data is: '' @ js_join (map js_join res))))"
| "tool_callback (UpdateCells spreadsheetId sheet rng data) ctxt =
     await (floating (updateCells spreadsheetId sheet (Some rng) data ctxt))
       (\<lambda>_. resolve (text_envelope (''Data was updated successfully.'' @ object_Promise)))"
| "tool_callback (BatchUpdate spreadsheetId sheet ranges) ctxt =
     await (floating (batchUpdate spreadsheetId sheet ranges ctxt))
       (\<lambda>_. resolve (text_envelope (''The values were updated: '' @ object_Promise)))"
| "tool_callback (AddRows spreadsheetId sheet count startRow) ctxt =
     await (floating (addRows spreadsheetId sheet count startRow ctxt))
       (\<lambda>_. resolve (text_envelope ''The rows were added successfully!''))"
| "tool_callback (AddColumns spreadsheetId sheet count startColumn) ctxt =
     await (floating (addColumns spreadsheetId sheet count startColumn ctxt))
       (\<lambda>_. resolve (text_envelope ''The columns were added successfully!''))"
| "tool_callback (CopySheet srcSpreadsheet srcSheet dstSpreadsheet dstSheet) ctxt =
     await (floating (copySheet srcSpreadsheet srcSheet dstSpreadsheet dstSheet ctxt))
       (\<lambda>_. resolve (text_envelope (''Sheet was successfully copied to destination sheet. '' @ object_Promise)))"

section \<open>Startup: initContext and startServer\<close>

record service_key =
  client_email :: "string option"
  private_key :: "string option"

record oauth_client_config =
  client_secret :: "string option"
  client_id :: "string option"
  redirect_uris :: "string list option"

record oauth_credentials =
  installed :: "oauth_client_config option"
  web :: "oauth_client_config option"

record token =
  access_token :: "string option"
  refresh_token :: "string option"

datatype auth_client = JWT service_key | OAuth2 oauth_client_config token

text \<open>
  What initContext reads from its environment, as parameters: the two environment
  variables, and the outcome of each step it delegates (decoding and parsing the blob
  and building the JWT client, the handshake, the two files, the probe with the saved
  token, the code typed by the operator, the token exchange and the write of token.json),
  with the factories that build the two API clients from an authorized client, and the
  outcome of \<open>server.connect(transport)\<close> in startServer.
  Every awaited step is taken to settle.
\<close>

record startup_env =
  CREDENTIALS_CONFIG :: "string option"
  DRIVE_FOLDER_ID :: "string option"
  parse_key :: "string \<Rightarrow> service_key settled"
  authorize :: "service_key \<Rightarrow> unit settled"
  credentials_exist :: bool
  read_credentials :: "oauth_credentials settled"
  token_exists :: bool
  read_token :: "token settled"
  probe_drive :: "auth_client \<Rightarrow> unit settled"
  entered_code :: string
  getToken :: "string \<Rightarrow> token settled"
  write_token :: "token \<Rightarrow> unit settled"
  google_sheets :: "auth_client \<Rightarrow> sheets_client"
  google_drive :: "auth_client \<Rightarrow> drive_client"
  connect_transport :: "unit settled"

definition settle :: "'a settled \<Rightarrow> 'a async" where
  "settle r s = (r, s)"

text \<open>\<open>{ sheets: google.sheets(..), drive: google.drive(..), folderId: DRIVE_FOLDER_ID || undefined }\<close>\<close>

definition make_context :: "startup_env \<Rightarrow> auth_client \<Rightarrow> ctx" where
  "make_context env auth =
     \<lparr>sheets = google_sheets env auth, drive = google_drive env auth,
      folderId = (if truthy (DRIVE_FOLDER_ID env) then DRIVE_FOLDER_ID env else None)\<rparr>"

datatype init_result = ContextAssigned ctx | ProcessExit int

text \<open>The body of the first inner \<open>try\<close>: the service credential path.\<close>

definition service_account_flow :: "startup_env \<Rightarrow> string \<Rightarrow> ctx async" where
  "service_account_flow env blob =
     await (settle (parse_key env blob))
       (\<lambda>key. await (settle (authorize env key)) (\<lambda>_. resolve (make_context env (JWT key))))"

text \<open>The body of the \<open>try\<close> under \<open>fs.existsSync(CREDENTIALS_PATH)\<close>: the OAuth path.\<close>

definition oauth_flow :: "startup_env \<Rightarrow> ctx async" where
  "oauth_flow env =
     await (settle (read_credentials env))
       (\<lambda>credentials.
          case (case installed credentials of Some cfg \<Rightarrow> Some cfg | None \<Rightarrow> web credentials) of
            None \<Rightarrow> throw (JsError ''Error'' ''Invalid credentials format - missing installed or web configuration'')
          | Some clientConfig \<Rightarrow>
              (case redirect_uris clientConfig of
                 None \<Rightarrow> throw (type_error ''redirect_uris'')
               | Some uris \<Rightarrow>
                   await (if token_exists env
                          then await (console_log ''Using saved token'' None)
                            (\<lambda>_. await (settle (read_token env))
                               (\<lambda>saved.
                                  try_catch
                                    (await (settle (probe_drive env (OAuth2 clientConfig saved)))
                                       (\<lambda>_. await (console_log ''OAuth authentication successful with saved token'' None)
                                          (\<lambda>_. resolve (Some (make_context env (OAuth2 clientConfig saved))))))
                                    (\<lambda>tokenError.
                                       await (console_error ''Saved token is invalid, generating new one:'' (Some tokenError))
                                         (\<lambda>_. resolve None))))
                          else resolve None)
                     (\<lambda>returned.
                        case returned of
                          Some c \<Rightarrow> resolve c
                        | None \<Rightarrow>
                            await (console_log ''Authorize this app by visiting this URL:'' None)
                              (\<lambda>_. try_catch
                                 (await (settle (getToken env (entered_code env)))
                                    (\<lambda>tokens. await (settle (write_token env tokens))
                                       (\<lambda>_. await (console_log ''Token stored to'' None)
                                          (\<lambda>_. resolve (make_context env (OAuth2 clientConfig tokens))))))
                                 (\<lambda>tokenError.
                                    await (console_error ''Error getting token:'' (Some tokenError))
                                      (\<lambda>_. throw (JsError ''Error'' ''Authentication failed: Could not get valid token'')))))))"

text \<open>
  initContext: either the module variable \<open>context\<close> is assigned (and the function
  returns), or \<open>process.exit(1)\<close> ends the process.
\<close>

definition initContext :: "startup_env \<Rightarrow> init_result async" where
  "initContext env =
     try_catch
       (await (if truthy (CREDENTIALS_CONFIG env)
               then try_catch
                 (await (service_account_flow env (the (CREDENTIALS_CONFIG env))) (\<lambda>c. resolve (Some c)))
                 (\<lambda>error. await (console_error ''Error with credentials from environment:'' (Some error))
                    (\<lambda>_. resolve None))
               else resolve None)
          (\<lambda>returned.
             case returned of
               Some c \<Rightarrow> resolve (ContextAssigned c)
             | None \<Rightarrow>
                 if credentials_exist env
                 then await (console_log ''Using OAuth credentials from file'' None)
                   (\<lambda>_. try_catch
                      (await (oauth_flow env) (\<lambda>c. resolve (ContextAssigned c)))
                      (\<lambda>error. await (console_error ''Error in OAuth flow:'' (Some error))
                         (\<lambda>_. throw (JsError ''Error'' ''Authentication failed: OAuth process error''))))
                 else throw (JsError ''Error'' ''No valid authentication method available'')))
       (\<lambda>error. await (console_error ''Failed to initialize context:'' (Some error))
          (\<lambda>_. resolve (ProcessExit 1)))"

text \<open>
  The process: whether the stdio transport is connected, the module variable \<open>context\<close>
  (\<open>None\<close> while unassigned), the exit code once the process has ended, and every handler
  invocation with the value of \<open>context\<close> it was passed.
\<close>

record process =
  connected :: bool
  context_var :: "ctx option"
  exit_code :: "int option"
  invocations :: "(tool_request \<times> ctx option) list"
  effects :: session

definition process0 :: process where
  "process0 = \<lparr>connected = False, context_var = None, exit_code = None, invocations = [],
               effects = session0\<rparr>"

text \<open>
  The steps of a run: the two awaited calls of startServer, and a tool request that the
  connected transport delivers to its registered callback.
\<close>

datatype event = Connect | InitContext | Incoming tool_request

fun step :: "startup_env \<Rightarrow> process \<Rightarrow> event \<Rightarrow> process" where
  "step env p Connect =
     (if exit_code p \<noteq> None then p
      else case connect_transport env of
             Fulfilled u \<Rightarrow> p\<lparr>connected := True\<rparr>
           | Rejected e \<Rightarrow>
               p\<lparr>exit_code := Some 1,
                 effects := (effects p)\<lparr>console := console (effects p) @
                    [ConsoleError ''Failed to start server:'' (Some e)]\<rparr>\<rparr>)"
| "step env p InitContext =
     (if exit_code p \<noteq> None then p
      else case initContext env (effects p) of
             (Fulfilled (ContextAssigned c), s') \<Rightarrow> p\<lparr>context_var := Some c, effects := s'\<rparr>
           | (Fulfilled (ProcessExit n), s') \<Rightarrow> p\<lparr>exit_code := Some n, effects := s'\<rparr>
           | (Rejected e, s') \<Rightarrow>
               p\<lparr>exit_code := Some 1,
                 effects := s'\<lparr>console := console s' @ [ConsoleError ''Failed to start server:'' (Some e)]\<rparr>\<rparr>)"
| "step env p (Incoming r) =
     (if exit_code p \<noteq> None \<or> \<not> connected p then p
      else p\<lparr>invocations := invocations p @ [(r, context_var p)]\<rparr>)"

text \<open>
  startServer awaits \<open>server.connect(transport)\<close> and then \<open>initContext()\<close>; an error of
  either is logged and ends the process with exit code 1. The requests
  \<open>early\<close> are delivered while initContext is suspended at one of its awaits, the requests
  \<open>late\<close> after it has returned.
\<close>

definition startServer :: "startup_env \<Rightarrow> tool_request list \<Rightarrow> tool_request list \<Rightarrow> process" where
  "startServer env early late =
     foldl (step env) process0 ([Connect] @ map Incoming early @ [InitContext] @ map Incoming late)"

section \<open>Concrete collaborators and environments\<close>

text \<open>
  A spreadsheet with three tabs, two of them titled \<open>Sheet1\<close> and one \<open>sheet1\<close>, served
  by a collaborator that accepts every call; a Drive that rejects a grant to an address
  without an at sign; and a collaborator that rejects every call.
\<close>

definition demo_sheet :: "string \<Rightarrow> int \<Rightarrow> sheet" where
  "demo_sheet t n =
     \<lparr>properties = Some \<lparr>sp_title = Some t, sp_sheetId = Some n, sp_index = None, sp_gridProperties = None\<rparr>\<rparr>"

definition demo_tabs :: "sheet list" where
  "demo_tabs = [demo_sheet ''Sheet1'' 7, demo_sheet ''sheet1'' 9, demo_sheet ''Sheet1'' 11]"

definition demo_spreadsheet :: spreadsheet where
  "demo_spreadsheet =
     \<lparr>ss_spreadsheetId = Some ''doc'', ss_spreadsheetUrl = Defined ''https://sheets.example/doc'',
      ss_properties = Some \<lparr>ssp_title = Some ''Budget''\<rparr>, ss_sheets = Some demo_tabs\<rparr>"

definition demo_sheets :: sheets_client where
  "demo_sheets =
     \<lparr>spreadsheets_create = (\<lambda>h title. Fulfilled (Some demo_spreadsheet)),
      spreadsheets_get = (\<lambda>h spreadsheetId. Fulfilled demo_spreadsheet),
      spreadsheets_batchUpdate = (\<lambda>h spreadsheetId body. Fulfilled \<lparr>replies = Some []\<rparr>),
      values_get = (\<lambda>h spreadsheetId r. Fulfilled (Some [[''a'', ''b'']])),
      values_update = (\<lambda>h spreadsheetId r d. Fulfilled \<lparr>updatedRange = Some r, updatedCells = None\<rparr>),
      values_batchUpdate = (\<lambda>h spreadsheetId d. Fulfilled \<lparr>totalUpdatedCells = None\<rparr>),
      sheets_copyTo = (\<lambda>h spreadsheetId n dst.
         Fulfilled \<lparr>sp_title = Some ''Copy of Sheet1'', sp_sheetId = Some 42, sp_index = None,
                    sp_gridProperties = None\<rparr>)\<rparr>"

definition quota :: js_error where
  "quota = JsError ''Error'' ''Quota exceeded''"

definition demo_drive :: drive_client where
  "demo_drive =
     \<lparr>permissions_create = (\<lambda>h fileId r emailAddress.
         if CHR ''@'' \<in> set emailAddress then Fulfilled \<lparr>perm_id = Some ''p1''\<rparr>
         else Rejected (JsError ''Error'' ''Invalid email address'')),
      files_get = (\<lambda>h fileId. Fulfilled \<lparr>file_id = Some fileId, file_name = None, parents = Some [''root'']\<rparr>),
      files_update = (\<lambda>h fileId a r. Fulfilled \<lparr>file_id = Some fileId, file_name = None, parents = Some [a]\<rparr>),
      files_list = (\<lambda>h q. Fulfilled (Some []))\<rparr>"

definition failing_sheets :: sheets_client where
  "failing_sheets =
     \<lparr>spreadsheets_create = (\<lambda>h title. Rejected quota),
      spreadsheets_get = (\<lambda>h spreadsheetId. Rejected quota),
      spreadsheets_batchUpdate = (\<lambda>h spreadsheetId body. Rejected quota),
      values_get = (\<lambda>h spreadsheetId r. Rejected quota),
      values_update = (\<lambda>h spreadsheetId r d. Rejected quota),
      values_batchUpdate = (\<lambda>h spreadsheetId d. Rejected quota),
      sheets_copyTo = (\<lambda>h spreadsheetId n dst. Rejected quota)\<rparr>"

definition failing_drive :: drive_client where
  "failing_drive =
     \<lparr>permissions_create = (\<lambda>h fileId r emailAddress. Rejected quota),
      files_get = (\<lambda>h fileId. Rejected quota),
      files_update = (\<lambda>h fileId a r. Rejected quota),
      files_list = (\<lambda>h q. Rejected quota)\<rparr>"

text \<open>A spreadsheet that may be read and not written: every write answers with a refusal.\<close>

definition forbidden :: js_error where
  "forbidden = JsError ''Error'' ''The caller does not have permission''"

definition readonly_sheets :: sheets_client where
  "readonly_sheets =
     demo_sheets
       \<lparr>spreadsheets_batchUpdate := (\<lambda>h spreadsheetId body. Rejected forbidden),
        values_update := (\<lambda>h spreadsheetId r d. Rejected forbidden),
        values_batchUpdate := (\<lambda>h spreadsheetId d. Rejected forbidden),
        sheets_copyTo := (\<lambda>h spreadsheetId n dst. Rejected forbidden)\<rparr>"

definition readonly_ctx :: ctx where
  "readonly_ctx = \<lparr>sheets = readonly_sheets, drive = demo_drive, folderId = None\<rparr>"

definition demo_ctx :: ctx where
  "demo_ctx = \<lparr>sheets = demo_sheets, drive = demo_drive, folderId = Some ''folder1''\<rparr>"

definition failing_ctx :: ctx where
  "failing_ctx = \<lparr>sheets = failing_sheets, drive = failing_drive, folderId = None\<rparr>"

text \<open>Creation succeeds, every Drive call fails.\<close>

definition flaky_ctx :: ctx where
  "flaky_ctx = \<lparr>sheets = demo_sheets, drive = failing_drive, folderId = Some ''folder1''\<rparr>"

definition demo_key :: service_key where
  "demo_key = \<lparr>client_email = Some ''bot@project.example'', private_key = Some ''key''\<rparr>"

definition demo_config :: oauth_client_config where
  "demo_config = \<lparr>client_secret = Some ''secret'', client_id = Some ''client'',
                  redirect_uris = Some [''http://localhost'']\<rparr>"

definition demo_token :: token where
  "demo_token = \<lparr>access_token = Some ''at'', refresh_token = Some ''rt''\<rparr>"

text \<open>
  An environment where both a service credential blob and the OAuth files are present and
  every step succeeds; one where the blob does not parse; and one with no credential.
\<close>

definition demo_env :: startup_env where
  "demo_env =
     \<lparr>CREDENTIALS_CONFIG = Some ''eyJrZXkiOiJ2YWx1ZSJ9'',
      DRIVE_FOLDER_ID = Some ''folder1'',
      parse_key = (\<lambda>blob. Fulfilled demo_key),
      authorize = (\<lambda>key. Fulfilled ()),
      credentials_exist = True,
      read_credentials = Fulfilled \<lparr>installed = Some demo_config, web = None\<rparr>,
      token_exists = True,
      read_token = Fulfilled demo_token,
      probe_drive = (\<lambda>auth. Fulfilled ()),
      entered_code = ''4/0Ab'',
      getToken = (\<lambda>code. Fulfilled demo_token),
      write_token = (\<lambda>t. Fulfilled ()),
      google_sheets = (\<lambda>auth. demo_sheets),
      google_drive = (\<lambda>auth. demo_drive),
      connect_transport = Fulfilled ()\<rparr>"





section \<open>Double arithmetic on integers\<close>

lemma round_half_even_int: "round_half_even (of_int k) = k"
  by (simp add: round_half_even_def)

lemma bitlen_one: "bitlen 1 = 1"
  by (simp add: bitlen_alt_def)

lemma quotient_of_of_int: "quotient_of (of_int s) = (s, 1)"
  by (metis Rat.of_int_def of_int_rat quotient_of_int)

text \<open>An integer of magnitude at most \<open>2\<^sup>5\<^sup>3\<close> is a double, and rounding leaves it as it is.\<close>

lemma round_double_int:
  assumes "\<bar>s\<bar> \<le> 2 ^ 53"
  shows "round_double (of_int s) = Num (of_int s)"
proof (cases "s = 0")
  case True
  then show ?thesis
    by (simp add: round_double_def)
next
  case False
  define a where "a = \<bar>s\<bar>"
  define b where "b = bitlen a"
  define e where "e = b - 53"
  have a: "1 \<le> a" "a \<le> 2 ^ 53"
    using False assms by (simp_all add: a_def)
  have b1: "1 \<le> b"
    unfolding b_def using a by (simp add: bitlen_ge_iff_power)
  have b54: "b \<le> 54"
    unfolding b_def using a by (simp add: bitlen_le_iff_power)
  have emax: "max (bitlen \<bar>s\<bar> - bitlen 1 - 52) (- 1074) = e"
    using b1 by (simp add: e_def b_def a_def bitlen_one)
  have "\<exists>k. \<bar>of_int s :: rat\<bar> / pow2 e = of_int k \<and> (of_int k :: rat) * pow2 e = of_int a"
  proof (cases "a = 2 ^ 53")
    case True
    then have "54 \<le> b"
      unfolding b_def by (simp add: bitlen_ge_iff_power)
    then have e1: "e = 1"
      using b54 by (simp add: e_def)
    have "\<bar>of_int s :: rat\<bar> = of_int a"
      by (simp add: a_def)
    then have "\<bar>of_int s :: rat\<bar> / pow2 e = of_int (2 ^ 52) \<and>
        (of_int (2 ^ 52) :: rat) * pow2 e = of_int a"
      using True by (simp add: e1 pow2_def)
    then show ?thesis
      by blast
  next
    case False
    then have "a < 2 ^ 53"
      using a by simp
    then have "b \<le> 53"
      unfolding b_def by (simp add: bitlen_le_iff_power)
    then have e0: "e \<le> 0"
      by (simp add: e_def)
    have p: "pow2 e = 1 / 2 ^ nat (- e)"
      using e0 by (cases "e = 0") (simp_all add: pow2_def)
    have "\<bar>of_int s :: rat\<bar> = of_int a"
      by (simp add: a_def)
    then have "\<bar>of_int s :: rat\<bar> / pow2 e = of_int (a * 2 ^ nat (- e)) \<and>
        (of_int (a * 2 ^ nat (- e)) :: rat) * pow2 e = of_int a"
      by (simp add: p)
    then show ?thesis
      by blast
  qed
  then obtain k where k: "\<bar>of_int s :: rat\<bar> / pow2 e = of_int k"
    and r: "(of_int k :: rat) * pow2 e = of_int a"
    by blast
  have small: "\<not> (2 ^ 1024 \<le> (of_int a :: rat))"
  proof -
    have "(of_int a :: rat) \<le> 2 ^ 53"
      using a(2) by (metis of_int_le_numeral_power_cancel_iff)
    also have "\<dots> < 2 ^ 1024"
      by (rule power_strict_increasing) simp_all
    finally show ?thesis
      by simp
  qed
  have sign: "(if 0 < (of_int s :: rat) then of_int a else - of_int a) = (of_int s :: rat)"
    by (simp add: a_def)
  have q0: "((of_int s :: rat) = 0) = False"
    using \<open>s \<noteq> 0\<close> by simp
  have small': "(2 ^ 1024 \<le> (of_int a :: rat)) = False"
    using small by simp
  have "round_double (of_int s) =
      (if 2 ^ 1024 \<le> (of_int a :: rat)
       then (if 0 < (of_int s :: rat) then PosInfinity else NegInfinity)
       else Num (if 0 < (of_int s :: rat) then of_int a else - of_int a))"
    unfolding round_double_def quotient_of_of_int
    by (simp only: q0 if_False Let_def prod.case emax k r round_half_even_int)
  also have "\<dots> = Num (of_int s)"
    by (simp only: small' if_False sign)
  finally show ?thesis .
qed

lemma js_add_safe_int:
  assumes "\<bar>a + c\<bar> \<le> 2 ^ 53"
  shows "js_add (Num (of_int a)) (Num (of_int c)) = Num (of_int (a + c))"
  using round_double_int [OF assms] by simp

lemma js_truthy_or_zero: "js_truthy n = (or_zero n \<noteq> Num 0)"
  by (auto simp add: or_zero_def js_truthy_def)

lemma or_zero_int: "or_zero (Num (of_int a)) = Num (of_int a)"
  by (simp add: or_zero_def js_truthy_def)

text \<open>Beyond \<open>2\<^sup>5\<^sup>3\<close> the sum is rounded: \<open>2\<^sup>5\<^sup>3 + 1\<close> is \<open>2\<^sup>5\<^sup>3\<close> again.\<close>

lemma js_add_rounds: "js_add (Num 9007199254740992) (Num 1) = Num 9007199254740992"
  by code_simp

section \<open>Unfolding the operations\<close>


lemmas async_defs = resolve_def throw_def await_def try_catch_def issue_def console_log_def
  console_error_def floating_def get_spreadsheet_def batch_update_spreadsheet_def grant_permission_def

lemma find_sheet_first:
  assumes "i < length xs" "title_of (xs ! i) = Some t" "\<forall>j<i. title_of (xs ! j) \<noteq> Some t"
  shows "find_sheet (Some xs) t = Some (xs ! i)"
  using assms unfolding find_sheet_def by (auto simp: find_Some_iff)

lemma find_sheet_none:
  assumes "\<forall>sh\<in>set xs. title_of sh \<noteq> Some t"
  shows "find_sheet (Some xs) t = None"
  using assms unfolding find_sheet_def by (auto simp: find_None_iff)

lemma renameSheet_not_found:
  assumes "spreadsheets_get (sheets ctxt) (requests s) spreadsheetId = Fulfilled meta"
    and "find_sheet (ss_sheets meta) t = None"
  shows "renameSheet spreadsheetId t newName ctxt s =
     (Fulfilled (Message ''Cannot find the sheet with the specified name''),
      s\<lparr>requests := requests s @ [SpreadsheetsGet spreadsheetId]\<rparr>)"
  using assms by (simp add: renameSheet_def async_defs)

lemma renameSheet_found:
  assumes "spreadsheets_get (sheets ctxt) (requests s) spreadsheetId = Fulfilled meta"
    and "find_sheet (ss_sheets meta) t = Some sh"
  shows "renameSheet spreadsheetId t newName ctxt s =
     (case spreadsheets_batchUpdate (sheets ctxt) (requests s @ [SpreadsheetsGet spreadsheetId])
             spreadsheetId [UpdateSheetProperties (sheetId_of sh) newName] of
        Fulfilled r \<Rightarrow> Fulfilled (Value r) | Rejected e \<Rightarrow> Rejected e,
      s\<lparr>requests := requests s @ [SpreadsheetsGet spreadsheetId,
           SpreadsheetsBatchUpdate spreadsheetId [UpdateSheetProperties (sheetId_of sh) newName]]\<rparr>)"
  using assms by (simp add: renameSheet_def async_defs Let_def split: settled.splits)

lemma addRows_not_found:
  assumes "spreadsheets_get (sheets ctxt) (requests s) spreadsheetId = Fulfilled meta"
    and "find_sheet (ss_sheets meta) t = None"
  shows "addRows spreadsheetId t count startRow ctxt s =
     (Fulfilled (Message ''Sheet Not found''), s\<lparr>requests := requests s @ [SpreadsheetsGet spreadsheetId]\<rparr>)"
  using assms by (simp add: addRows_def async_defs)

lemma addRows_found:
  assumes "spreadsheets_get (sheets ctxt) (requests s) spreadsheetId = Fulfilled meta"
    and "find_sheet (ss_sheets meta) t = Some sh"
  shows "addRows spreadsheetId t count startRow ctxt s =
     (case spreadsheets_batchUpdate (sheets ctxt) (requests s @ [SpreadsheetsGet spreadsheetId]) spreadsheetId
             [InsertDimension (sheetId_of sh) ROWS (or_zero startRow) (js_add (or_zero startRow) count) (js_truthy startRow)] of
        Fulfilled r \<Rightarrow> Fulfilled (Value r) | Rejected e \<Rightarrow> Rejected e,
      s\<lparr>requests := requests s @ [SpreadsheetsGet spreadsheetId,
           SpreadsheetsBatchUpdate spreadsheetId
             [InsertDimension (sheetId_of sh) ROWS (or_zero startRow) (js_add (or_zero startRow) count) (js_truthy startRow)]]\<rparr>)"
  using assms by (simp add: addRows_def async_defs Let_def split: settled.splits)

lemma addColumns_not_found:
  assumes "spreadsheets_get (sheets ctxt) (requests s) spreadsheetId = Fulfilled meta"
    and "find_sheet (ss_sheets meta) t = None"
  shows "addColumns spreadsheetId t count startColumn ctxt s =
     (Fulfilled (Message ''Sheet not found''), s\<lparr>requests := requests s @ [SpreadsheetsGet spreadsheetId]\<rparr>)"
  using assms by (simp add: addColumns_def async_defs)

lemma addColumns_found:
  assumes "spreadsheets_get (sheets ctxt) (requests s) spreadsheetId = Fulfilled meta"
    and "find_sheet (ss_sheets meta) t = Some sh"
  shows "addColumns spreadsheetId t count startColumn ctxt s =
     (case spreadsheets_batchUpdate (sheets ctxt) (requests s @ [SpreadsheetsGet spreadsheetId]) spreadsheetId
             [InsertDimension (sheetId_of sh) COLUMNS (or_zero startColumn) (js_add (or_zero startColumn) count)
                (js_truthy startColumn)] of
        Fulfilled r \<Rightarrow> Fulfilled (Value r) | Rejected e \<Rightarrow> Rejected e,
      s\<lparr>requests := requests s @ [SpreadsheetsGet spreadsheetId,
           SpreadsheetsBatchUpdate spreadsheetId
             [InsertDimension (sheetId_of sh) COLUMNS (or_zero startColumn) (js_add (or_zero startColumn) count)
                (js_truthy startColumn)]]\<rparr>)"
  using assms by (simp add: addColumns_def async_defs Let_def split: settled.splits)

lemma copySheet_not_found:
  assumes "spreadsheets_get (sheets ctxt) (requests s) srcSpreadsheet = Fulfilled meta"
    and "find_sheet (ss_sheets meta) t = None"
  shows "copySheet srcSpreadsheet t dstSpreadsheet dstSheet ctxt s =
     (Fulfilled (Message ''Source sheet not found''),
      s\<lparr>requests := requests s @ [SpreadsheetsGet srcSpreadsheet]\<rparr>)"
  using assms by (simp add: copySheet_def async_defs)

lemma copySheet_found:
  assumes "spreadsheets_get (sheets ctxt) (requests s) srcSpreadsheet = Fulfilled meta"
    and "find_sheet (ss_sheets meta) t = Some sh"
  shows "(\<forall>m. fst (copySheet srcSpreadsheet t dstSpreadsheet dstSheet ctxt s) \<noteq> Fulfilled (Message m)) \<and>
     take 2 (drop (length (requests s)) (requests (snd (copySheet srcSpreadsheet t dstSpreadsheet dstSheet ctxt s)))) =
       [SpreadsheetsGet srcSpreadsheet, SheetsCopyTo srcSpreadsheet (sheetId_of sh) dstSpreadsheet]"
  using assms by (simp add: copySheet_def async_defs Let_def split: settled.splits prod.splits)

text \<open>
  Claim C1. Once the metadata of the spreadsheet is fetched and lists the descriptors
  \<open>xs\<close>: if no descriptor has exactly the requested title, renameSheet, addRows,
  addColumns and copySheet each return their not-found string after the metadata request
  alone; and if \<open>i\<close> is the first position whose title equals the requested title, none
  of them returns a not-found string (or any string), and the request each issues next
  carries the numeric id of the descriptor at position \<open>i\<close>.
\<close>

theorem resolve_sheet_by_title:
  assumes get: "spreadsheets_get (sheets ctxt) (requests s) spreadsheetId = Fulfilled meta"
    and shs: "ss_sheets meta = Some xs"
  shows "((\<forall>sh\<in>set xs. title_of sh \<noteq> Some t) \<longrightarrow>
            renameSheet spreadsheetId t newName ctxt s =
              (Fulfilled (Message ''Cannot find the sheet with the specified name''),
               s\<lparr>requests := requests s @ [SpreadsheetsGet spreadsheetId]\<rparr>) \<and>
            addRows spreadsheetId t count start ctxt s =
              (Fulfilled (Message ''Sheet Not found''),
               s\<lparr>requests := requests s @ [SpreadsheetsGet spreadsheetId]\<rparr>) \<and>
            addColumns spreadsheetId t count start ctxt s =
              (Fulfilled (Message ''Sheet not found''),
               s\<lparr>requests := requests s @ [SpreadsheetsGet spreadsheetId]\<rparr>) \<and>
            copySheet spreadsheetId t dstSpreadsheet dstSheet ctxt s =
              (Fulfilled (Message ''Source sheet not found''),
               s\<lparr>requests := requests s @ [SpreadsheetsGet spreadsheetId]\<rparr>))
       \<and> (\<forall>i. i < length xs \<and> title_of (xs ! i) = Some t \<and> (\<forall>j<i. title_of (xs ! j) \<noteq> Some t) \<longrightarrow>
            (\<forall>m. fst (renameSheet spreadsheetId t newName ctxt s) \<noteq> Fulfilled (Message m)) \<and>
            requests (snd (renameSheet spreadsheetId t newName ctxt s)) =
              requests s @ [SpreadsheetsGet spreadsheetId,
                SpreadsheetsBatchUpdate spreadsheetId [UpdateSheetProperties (sheetId_of (xs ! i)) newName]] \<and>
            (\<forall>m. fst (addRows spreadsheetId t count start ctxt s) \<noteq> Fulfilled (Message m)) \<and>
            requests (snd (addRows spreadsheetId t count start ctxt s)) =
              requests s @ [SpreadsheetsGet spreadsheetId,
                SpreadsheetsBatchUpdate spreadsheetId
                  [InsertDimension (sheetId_of (xs ! i)) ROWS (or_zero start) (js_add (or_zero start) count) (js_truthy start)]] \<and>
            (\<forall>m. fst (addColumns spreadsheetId t count start ctxt s) \<noteq> Fulfilled (Message m)) \<and>
            requests (snd (addColumns spreadsheetId t count start ctxt s)) =
              requests s @ [SpreadsheetsGet spreadsheetId,
                SpreadsheetsBatchUpdate spreadsheetId
                  [InsertDimension (sheetId_of (xs ! i)) COLUMNS (or_zero start) (js_add (or_zero start) count) (js_truthy start)]] \<and>
            (\<forall>m. fst (copySheet spreadsheetId t dstSpreadsheet dstSheet ctxt s) \<noteq> Fulfilled (Message m)) \<and>
            take 2 (drop (length (requests s))
                (requests (snd (copySheet spreadsheetId t dstSpreadsheet dstSheet ctxt s)))) =
              [SpreadsheetsGet spreadsheetId, SheetsCopyTo spreadsheetId (sheetId_of (xs ! i)) dstSpreadsheet])"
proof (intro conjI impI allI)
  assume none: "\<forall>sh\<in>set xs. title_of sh \<noteq> Some t"
  have nf: "find_sheet (ss_sheets meta) t = None"
    using find_sheet_none [OF none] shs by simp
  show "renameSheet spreadsheetId t newName ctxt s =
      (Fulfilled (Message ''Cannot find the sheet with the specified name''),
       s\<lparr>requests := requests s @ [SpreadsheetsGet spreadsheetId]\<rparr>)"
    by (rule renameSheet_not_found [OF get nf])
  show "addRows spreadsheetId t count start ctxt s =
      (Fulfilled (Message ''Sheet Not found''), s\<lparr>requests := requests s @ [SpreadsheetsGet spreadsheetId]\<rparr>)"
    by (rule addRows_not_found [OF get nf])
  show "addColumns spreadsheetId t count start ctxt s =
      (Fulfilled (Message ''Sheet not found''), s\<lparr>requests := requests s @ [SpreadsheetsGet spreadsheetId]\<rparr>)"
    by (rule addColumns_not_found [OF get nf])
  show "copySheet spreadsheetId t dstSpreadsheet dstSheet ctxt s =
      (Fulfilled (Message ''Source sheet not found''),
       s\<lparr>requests := requests s @ [SpreadsheetsGet spreadsheetId]\<rparr>)"
    by (rule copySheet_not_found [OF get nf])
next
  fix i m
  assume first: "i < length xs \<and> title_of (xs ! i) = Some t \<and> (\<forall>j<i. title_of (xs ! j) \<noteq> Some t)"
  have f: "find_sheet (ss_sheets meta) t = Some (xs ! i)"
    using find_sheet_first [of i xs t] first shs by simp
  show "fst (renameSheet spreadsheetId t newName ctxt s) \<noteq> Fulfilled (Message m)"
    by (simp add: renameSheet_found [OF get f] split: settled.splits)
  show "fst (addRows spreadsheetId t count start ctxt s) \<noteq> Fulfilled (Message m)"
    by (simp add: addRows_found [OF get f] split: settled.splits)
  show "fst (addColumns spreadsheetId t count start ctxt s) \<noteq> Fulfilled (Message m)"
    by (simp add: addColumns_found [OF get f] split: settled.splits)
  show "fst (copySheet spreadsheetId t dstSpreadsheet dstSheet ctxt s) \<noteq> Fulfilled (Message m)"
    using copySheet_found [OF get f] by blast
next
  fix i
  assume first: "i < length xs \<and> title_of (xs ! i) = Some t \<and> (\<forall>j<i. title_of (xs ! j) \<noteq> Some t)"
  have f: "find_sheet (ss_sheets meta) t = Some (xs ! i)"
    using find_sheet_first [of i xs t] first shs by simp
  show "requests (snd (renameSheet spreadsheetId t newName ctxt s)) =
      requests s @ [SpreadsheetsGet spreadsheetId,
        SpreadsheetsBatchUpdate spreadsheetId [UpdateSheetProperties (sheetId_of (xs ! i)) newName]]"
    by (simp add: renameSheet_found [OF get f])
  show "requests (snd (addRows spreadsheetId t count start ctxt s)) =
      requests s @ [SpreadsheetsGet spreadsheetId,
        SpreadsheetsBatchUpdate spreadsheetId
          [InsertDimension (sheetId_of (xs ! i)) ROWS (or_zero start) (js_add (or_zero start) count) (js_truthy start)]]"
    by (simp add: addRows_found [OF get f])
  show "requests (snd (addColumns spreadsheetId t count start ctxt s)) =
      requests s @ [SpreadsheetsGet spreadsheetId,
        SpreadsheetsBatchUpdate spreadsheetId
          [InsertDimension (sheetId_of (xs ! i)) COLUMNS (or_zero start) (js_add (or_zero start) count) (js_truthy start)]]"
    by (simp add: addColumns_found [OF get f])
  show "take 2 (drop (length (requests s))
        (requests (snd (copySheet spreadsheetId t dstSpreadsheet dstSheet ctxt s)))) =
      [SpreadsheetsGet spreadsheetId, SheetsCopyTo spreadsheetId (sheetId_of (xs ! i)) dstSpreadsheet]"
    using copySheet_found [OF get f] by blast
qed

theorem resolve_sheet_by_title_witness:
  "renameSheet ''doc'' ''SHEET1'' ''New'' demo_ctx session0 =
     (Fulfilled (Message ''Cannot find the sheet with the specified name''),
      session0\<lparr>requests := [SpreadsheetsGet ''doc'']\<rparr>) \<and>
   addRows ''doc'' ''Sheet 1'' (Num 3) (Num 5) demo_ctx session0 =
     (Fulfilled (Message ''Sheet Not found''), session0\<lparr>requests := [SpreadsheetsGet ''doc'']\<rparr>) \<and>
   requests (snd (renameSheet ''doc'' ''sheet1'' ''New'' demo_ctx session0)) =
     [SpreadsheetsGet ''doc'', SpreadsheetsBatchUpdate ''doc'' [UpdateSheetProperties (Some 9) ''New'']] \<and>
   requests (snd (addRows ''doc'' ''Sheet1'' (Num 3) (Num 5) demo_ctx session0)) =
     [SpreadsheetsGet ''doc'', SpreadsheetsBatchUpdate ''doc'' [InsertDimension (Some 7) ROWS (Num 5) (Num 8) True]]"
proof -
  have get: "spreadsheets_get (sheets demo_ctx) (requests session0) ''doc'' = Fulfilled demo_spreadsheet"
    by (simp add: demo_ctx_def demo_sheets_def)
  have shs: "ss_sheets demo_spreadsheet = Some demo_tabs"
    by (simp add: demo_spreadsheet_def)
  note T = resolve_sheet_by_title [OF get shs]
  have none1: "\<forall>sh\<in>set demo_tabs. title_of sh \<noteq> Some ''SHEET1''"
    by (simp add: demo_tabs_def demo_sheet_def title_of_def)
  have none2: "\<forall>sh\<in>set demo_tabs. title_of sh \<noteq> Some ''Sheet 1''"
    by (simp add: demo_tabs_def demo_sheet_def title_of_def)
  have first1: "1 < length demo_tabs \<and> title_of (demo_tabs ! 1) = Some ''sheet1'' \<and>
      (\<forall>j<1. title_of (demo_tabs ! j) \<noteq> Some ''sheet1'')"
    by (simp add: demo_tabs_def demo_sheet_def title_of_def)
  have first0: "0 < length demo_tabs \<and> title_of (demo_tabs ! 0) = Some ''Sheet1'' \<and>
      (\<forall>j<0. title_of (demo_tabs ! j) \<noteq> Some ''Sheet1'')"
    by (simp add: demo_tabs_def demo_sheet_def title_of_def)
  have a: "renameSheet ''doc'' ''SHEET1'' ''New'' demo_ctx session0 =
     (Fulfilled (Message ''Cannot find the sheet with the specified name''),
      session0\<lparr>requests := requests session0 @ [SpreadsheetsGet ''doc'']\<rparr>)"
    using T [where t = "''SHEET1''" and newName = "''New''"] none1 by blast
  have b: "addRows ''doc'' ''Sheet 1'' (Num 3) (Num 5) demo_ctx session0 =
     (Fulfilled (Message ''Sheet Not found''),
      session0\<lparr>requests := requests session0 @ [SpreadsheetsGet ''doc'']\<rparr>)"
    using T [where t = "''Sheet 1''" and count = "Num 3" and start = "Num 5"] none2 by blast
  have c: "requests (snd (renameSheet ''doc'' ''sheet1'' ''New'' demo_ctx session0)) =
     requests session0 @ [SpreadsheetsGet ''doc'',
       SpreadsheetsBatchUpdate ''doc'' [UpdateSheetProperties (sheetId_of (demo_tabs ! 1)) ''New'']]"
    using T [where t = "''sheet1''" and newName = "''New''"] first1 by blast
  have d: "requests (snd (addRows ''doc'' ''Sheet1'' (Num 3) (Num 5) demo_ctx session0)) =
     requests session0 @ [SpreadsheetsGet ''doc'',
       SpreadsheetsBatchUpdate ''doc''
         [InsertDimension (sheetId_of (demo_tabs ! 0)) ROWS (or_zero (Num 5)) (js_add (or_zero (Num 5)) (Num 3))
            (js_truthy (Num 5))]]"
    using T [where t = "''Sheet1''" and count = "Num 3" and start = "Num 5"] first0 by blast
  show ?thesis
    using a b c d js_add_safe_int [of 5 3]
    by (simp add: session0_def demo_tabs_def demo_sheet_def sheetId_of_def or_zero_def js_truthy_def)
qed

section \<open>Inserting rows and columns\<close>

text \<open>
  Claim C6, as amended. When the sheet title resolves to a descriptor, addRows and
  addColumns issue, after the metadata request, exactly one batch request holding exactly
  one insert-dimension entry on the descriptor's numeric id: its start index is the start
  argument, or zero when that is falsy; its end index is the double-precision sum of the
  start index and the count; and it asks to inherit from before exactly when the start
  index is not zero. When start and count are integers and they and their sum have
  magnitude at most \<open>2\<^sup>5\<^sup>3\<close>, the end index is exactly the start index plus the count.
\<close>

theorem insert_dimension_request:
  assumes get: "spreadsheets_get (sheets ctxt) (requests s) spreadsheetId = Fulfilled meta"
    and found: "find_sheet (ss_sheets meta) sheet = Some sh"
  shows "requests (snd (addRows spreadsheetId sheet count start ctxt s)) =
           requests s @ [SpreadsheetsGet spreadsheetId,
             SpreadsheetsBatchUpdate spreadsheetId
               [InsertDimension (sheetId_of sh) ROWS (or_zero start) (js_add (or_zero start) count)
                  (or_zero start \<noteq> Num 0)]] \<and>
         requests (snd (addColumns spreadsheetId sheet count start ctxt s)) =
           requests s @ [SpreadsheetsGet spreadsheetId,
             SpreadsheetsBatchUpdate spreadsheetId
               [InsertDimension (sheetId_of sh) COLUMNS (or_zero start) (js_add (or_zero start) count)
                  (or_zero start \<noteq> Num 0)]] \<and>
         (\<forall>a c. start = Num (of_int a) \<and> count = Num (of_int c) \<and>
                \<bar>a\<bar> \<le> 2 ^ 53 \<and> \<bar>c\<bar> \<le> 2 ^ 53 \<and> \<bar>a + c\<bar> \<le> 2 ^ 53 \<longrightarrow>
                or_zero start = Num (of_int a) \<and>
                js_add (or_zero start) count = Num (of_int (a + c)))"
proof (intro conjI allI impI)
  show "requests (snd (addRows spreadsheetId sheet count start ctxt s)) =
           requests s @ [SpreadsheetsGet spreadsheetId,
             SpreadsheetsBatchUpdate spreadsheetId
               [InsertDimension (sheetId_of sh) ROWS (or_zero start) (js_add (or_zero start) count)
                  (or_zero start \<noteq> Num 0)]]"
    by (simp add: addRows_found [OF get found] js_truthy_or_zero)
  show "requests (snd (addColumns spreadsheetId sheet count start ctxt s)) =
           requests s @ [SpreadsheetsGet spreadsheetId,
             SpreadsheetsBatchUpdate spreadsheetId
               [InsertDimension (sheetId_of sh) COLUMNS (or_zero start) (js_add (or_zero start) count)
                  (or_zero start \<noteq> Num 0)]]"
    by (simp add: addColumns_found [OF get found] js_truthy_or_zero)
next
  fix a c
  assume h: "start = Num (of_int a) \<and> count = Num (of_int c) \<and>
      \<bar>a\<bar> \<le> 2 ^ 53 \<and> \<bar>c\<bar> \<le> 2 ^ 53 \<and> \<bar>a + c\<bar> \<le> 2 ^ 53"
  then have sum: "\<bar>a + c\<bar> \<le> 2 ^ 53"
    by simp
  show "or_zero start = Num (of_int a)"
    using h by (simp add: or_zero_int)
  show "js_add (or_zero start) count = Num (of_int (a + c))"
    using h js_add_safe_int [OF sum] by (simp only: or_zero_int)
qed

theorem insert_dimension_request_witness:
  "requests (snd (addRows ''doc'' ''Sheet1'' (Num 3) (Num 0) demo_ctx session0)) =
     [SpreadsheetsGet ''doc'',
      SpreadsheetsBatchUpdate ''doc'' [InsertDimension (Some 7) ROWS (Num 0) (Num 3) False]] \<and>
   requests (snd (addRows ''doc'' ''Sheet1'' (Num 3) (Num 5) demo_ctx session0)) =
     [SpreadsheetsGet ''doc'',
      SpreadsheetsBatchUpdate ''doc'' [InsertDimension (Some 7) ROWS (Num 5) (Num 8) True]] \<and>
   requests (snd (addColumns ''doc'' ''sheet1'' (Num 2) (Num 4) demo_ctx session0)) =
     [SpreadsheetsGet ''doc'',
      SpreadsheetsBatchUpdate ''doc'' [InsertDimension (Some 9) COLUMNS (Num 4) (Num 6) True]]"
proof -
  have get: "spreadsheets_get (sheets demo_ctx) (requests session0) ''doc'' = Fulfilled demo_spreadsheet"
    by (simp add: demo_ctx_def demo_sheets_def)
  have f1: "find_sheet (ss_sheets demo_spreadsheet) ''Sheet1'' = Some (demo_sheet ''Sheet1'' 7)"
    by (simp add: demo_spreadsheet_def demo_tabs_def demo_sheet_def find_sheet_def title_of_def)
  have f2: "find_sheet (ss_sheets demo_spreadsheet) ''sheet1'' = Some (demo_sheet ''sheet1'' 9)"
    by (simp add: demo_spreadsheet_def demo_tabs_def demo_sheet_def find_sheet_def title_of_def)
  have h1: "Num 0 = Num (of_int 0) \<and> Num 3 = Num (of_int 3) \<and>
      \<bar>0 :: int\<bar> \<le> 2 ^ 53 \<and> \<bar>3 :: int\<bar> \<le> 2 ^ 53 \<and> \<bar>0 + 3 :: int\<bar> \<le> 2 ^ 53"
    by simp
  have h2: "Num 5 = Num (of_int 5) \<and> Num 3 = Num (of_int 3) \<and>
      \<bar>5 :: int\<bar> \<le> 2 ^ 53 \<and> \<bar>3 :: int\<bar> \<le> 2 ^ 53 \<and> \<bar>5 + 3 :: int\<bar> \<le> 2 ^ 53"
    by simp
  have h3: "Num 4 = Num (of_int 4) \<and> Num 2 = Num (of_int 2) \<and>
      \<bar>4 :: int\<bar> \<le> 2 ^ 53 \<and> \<bar>2 :: int\<bar> \<le> 2 ^ 53 \<and> \<bar>4 + 2 :: int\<bar> \<le> 2 ^ 53"
    by simp
  note T1 = insert_dimension_request [OF get f1, of "Num 3" "Num 0"]
  note T2 = insert_dimension_request [OF get f1, of "Num 3" "Num 5"]
  note T3 = insert_dimension_request [OF get f2, of "Num 2" "Num 4"]
  have e1: "or_zero (Num 0) = Num (of_int 0) \<and> js_add (or_zero (Num 0)) (Num 3) = Num (of_int (0 + 3))"
    using T1 [THEN conjunct2, THEN conjunct2, rule_format, OF h1] .
  have e2: "or_zero (Num 5) = Num (of_int 5) \<and> js_add (or_zero (Num 5)) (Num 3) = Num (of_int (5 + 3))"
    using T2 [THEN conjunct2, THEN conjunct2, rule_format, OF h2] .
  have e3: "or_zero (Num 4) = Num (of_int 4) \<and> js_add (or_zero (Num 4)) (Num 2) = Num (of_int (4 + 2))"
    using T3 [THEN conjunct2, THEN conjunct2, rule_format, OF h3] .
  have a: "requests (snd (addRows ''doc'' ''Sheet1'' (Num 3) (Num 0) demo_ctx session0)) =
     [SpreadsheetsGet ''doc'',
      SpreadsheetsBatchUpdate ''doc'' [InsertDimension (Some 7) ROWS (Num 0) (Num 3) False]]"
    using T1 [THEN conjunct1] e1
    by (simp add: or_zero_def js_truthy_def session0_def demo_sheet_def sheetId_of_def del: js_add.simps)
  have b: "requests (snd (addRows ''doc'' ''Sheet1'' (Num 3) (Num 5) demo_ctx session0)) =
     [SpreadsheetsGet ''doc'',
      SpreadsheetsBatchUpdate ''doc'' [InsertDimension (Some 7) ROWS (Num 5) (Num 8) True]]"
    using T2 [THEN conjunct1] e2
    by (simp add: or_zero_def js_truthy_def session0_def demo_sheet_def sheetId_of_def del: js_add.simps)
  have c: "requests (snd (addColumns ''doc'' ''sheet1'' (Num 2) (Num 4) demo_ctx session0)) =
     [SpreadsheetsGet ''doc'',
      SpreadsheetsBatchUpdate ''doc'' [InsertDimension (Some 9) COLUMNS (Num 4) (Num 6) True]]"
    using T3 [THEN conjunct2, THEN conjunct1] e3
    by (simp add: or_zero_def js_truthy_def session0_def demo_sheet_def sheetId_of_def del: js_add.simps)
  show ?thesis
    using a b c by simp
qed

text \<open>
  The claim as stated fails where the sum is not a double: for one row from
  index \<open>2\<^sup>5\<^sup>3\<close> the request's end index is \<open>2\<^sup>5\<^sup>3\<close>, the start index itself, so the
  interval requested is empty and not the one row from \<open>2\<^sup>5\<^sup>3\<close> to \<open>2\<^sup>5\<^sup>3 + 1\<close>.
\<close>

theorem insert_interval_rounded:
  "requests (snd (addRows ''doc'' ''Sheet1'' (Num 1) (Num 9007199254740992) demo_ctx session0)) =
     [SpreadsheetsGet ''doc'',
      SpreadsheetsBatchUpdate ''doc''
        [InsertDimension (Some 7) ROWS (Num 9007199254740992) (Num 9007199254740992) True]] \<and>
   requests (snd (addRows ''doc'' ''Sheet1'' (Num 1) (Num 9007199254740992) demo_ctx session0)) \<noteq>
     [SpreadsheetsGet ''doc'',
      SpreadsheetsBatchUpdate ''doc''
        [InsertDimension (Some 7) ROWS (Num 9007199254740992) (Num (9007199254740992 + 1)) True]]"
proof -
  have get: "spreadsheets_get (sheets demo_ctx) (requests session0) ''doc'' = Fulfilled demo_spreadsheet"
    by (simp add: demo_ctx_def demo_sheets_def)
  have f1: "find_sheet (ss_sheets demo_spreadsheet) ''Sheet1'' = Some (demo_sheet ''Sheet1'' 7)"
    by (simp add: demo_spreadsheet_def demo_tabs_def demo_sheet_def find_sheet_def title_of_def)
  have oz: "or_zero (Num 9007199254740992) = Num 9007199254740992"
    by (simp add: or_zero_def js_truthy_def)
  have run: "requests (snd (addRows ''doc'' ''Sheet1'' (Num 1) (Num 9007199254740992) demo_ctx session0)) =
     requests session0 @ [SpreadsheetsGet ''doc'',
      SpreadsheetsBatchUpdate ''doc''
        [InsertDimension (sheetId_of (demo_sheet ''Sheet1'' 7)) ROWS (or_zero (Num 9007199254740992))
           (js_add (or_zero (Num 9007199254740992)) (Num 1)) (js_truthy (Num 9007199254740992))]]"
    unfolding addRows_found [OF get f1] by simp
  have "requests (snd (addRows ''doc'' ''Sheet1'' (Num 1) (Num 9007199254740992) demo_ctx session0)) =
     [SpreadsheetsGet ''doc'',
      SpreadsheetsBatchUpdate ''doc''
        [InsertDimension (Some 7) ROWS (Num 9007199254740992) (Num 9007199254740992) True]]"
    unfolding run oz js_add_rounds
    by (simp add: js_truthy_def session0_def demo_sheet_def sheetId_of_def)
  then show ?thesis
    by simp
qed

section \<open>Reading and writing a range\<close>

lemma fullRange_falsy: "fullRange sheet None = sheet" "fullRange sheet (Some []) = sheet"
  by (simp_all add: fullRange_def truthy_def)

lemma fullRange_truthy: "r \<noteq> [] \<Longrightarrow> fullRange sheet (Some r) = sheet @ ''!'' @ r"
  by (simp add: fullRange_def truthy_def)

lemma sheetData_run:
  "sheetData spreadsheetId sheet rng ctxt s =
     (case values_get (sheets ctxt) (requests s) spreadsheetId (fullRange sheet rng) of
        Fulfilled v \<Rightarrow> Fulfilled (case v of None \<Rightarrow> [] | Some g \<Rightarrow> g)
      | Rejected e \<Rightarrow> Rejected e,
      s\<lparr>requests := requests s @ [ValuesGet spreadsheetId (fullRange sheet rng)]\<rparr>)"
  by (simp add: sheetData_def async_defs split: settled.splits)

lemma updateCells_run:
  "updateCells spreadsheetId sheet rng data ctxt s =
     (values_update (sheets ctxt) (requests s) spreadsheetId (fullRange sheet rng) data,
      s\<lparr>requests := requests s @ [ValuesUpdate spreadsheetId (fullRange sheet rng) ''USER_ENTERED'' data]\<rparr>)"
  by (simp add: updateCells_def async_defs split: settled.splits)

lemma floating_requests: "requests (snd (floating m s)) = requests (snd (m s))"
  by (simp add: floating_def split: prod.splits settled.splits)

lemma floating_fulfils: "fst (floating m s) = Fulfilled ()"
  by (simp add: floating_def split: prod.splits settled.splits)

lemma await_resolve_requests:
  "requests (snd (await m (\<lambda>x. resolve (f x)) s)) = requests (snd (m s))"
  by (simp add: await_def resolve_def split: prod.splits settled.splits)

text \<open>
  Claim C10. For sheetData and updateCells an empty-string range and an absent range are
  the same call: the one request sent names the bare sheet, the operation adds no failure
  of its own (its outcome is the collaborator's answer), and the same holds through the
  two tools when their \<open>range\<close> argument is the empty string. A non-empty range is
  addressed as sheet, exclamation mark, range.
\<close>

theorem empty_range_is_whole_sheet:
  "sheetData spreadsheetId sheet (Some []) ctxt s = sheetData spreadsheetId sheet None ctxt s \<and>
   sheetData spreadsheetId sheet None ctxt s =
     (case values_get (sheets ctxt) (requests s) spreadsheetId sheet of
        Fulfilled v \<Rightarrow> Fulfilled (case v of None \<Rightarrow> [] | Some g \<Rightarrow> g)
      | Rejected e \<Rightarrow> Rejected e,
      s\<lparr>requests := requests s @ [ValuesGet spreadsheetId sheet]\<rparr>) \<and>
   updateCells spreadsheetId sheet (Some []) data ctxt s = updateCells spreadsheetId sheet None data ctxt s \<and>
   updateCells spreadsheetId sheet None data ctxt s =
     (values_update (sheets ctxt) (requests s) spreadsheetId sheet data,
      s\<lparr>requests := requests s @ [ValuesUpdate spreadsheetId sheet ''USER_ENTERED'' data]\<rparr>) \<and>
   requests (snd (tool_callback (SheetData spreadsheetId sheet []) ctxt s)) =
     requests s @ [ValuesGet spreadsheetId sheet] \<and>
   requests (snd (tool_callback (UpdateCells spreadsheetId sheet [] data) ctxt s)) =
     requests s @ [ValuesUpdate spreadsheetId sheet ''USER_ENTERED'' data] \<and>
   (r \<noteq> [] \<longrightarrow>
      requests (snd (sheetData spreadsheetId sheet (Some r) ctxt s)) =
        requests s @ [ValuesGet spreadsheetId (sheet @ ''!'' @ r)] \<and>
      requests (snd (updateCells spreadsheetId sheet (Some r) data ctxt s)) =
        requests s @ [ValuesUpdate spreadsheetId (sheet @ ''!'' @ r) ''USER_ENTERED'' data])"
proof (intro conjI impI)
  show "sheetData spreadsheetId sheet (Some []) ctxt s = sheetData spreadsheetId sheet None ctxt s"
    by (simp add: sheetData_run fullRange_falsy)
  show "sheetData spreadsheetId sheet None ctxt s =
     (case values_get (sheets ctxt) (requests s) spreadsheetId sheet of
        Fulfilled v \<Rightarrow> Fulfilled (case v of None \<Rightarrow> [] | Some g \<Rightarrow> g)
      | Rejected e \<Rightarrow> Rejected e,
      s\<lparr>requests := requests s @ [ValuesGet spreadsheetId sheet]\<rparr>)"
    by (simp add: sheetData_run fullRange_falsy)
  show "updateCells spreadsheetId sheet (Some []) data ctxt s = updateCells spreadsheetId sheet None data ctxt s"
    by (simp add: updateCells_run fullRange_falsy)
  show "updateCells spreadsheetId sheet None data ctxt s =
     (values_update (sheets ctxt) (requests s) spreadsheetId sheet data,
      s\<lparr>requests := requests s @ [ValuesUpdate spreadsheetId sheet ''USER_ENTERED'' data]\<rparr>)"
    by (simp add: updateCells_run fullRange_falsy)
  show "requests (snd (tool_callback (SheetData spreadsheetId sheet []) ctxt s)) =
     requests s @ [ValuesGet spreadsheetId sheet]"
    by (simp add: await_resolve_requests sheetData_run fullRange_falsy)
  show "requests (snd (tool_callback (UpdateCells spreadsheetId sheet [] data) ctxt s)) =
     requests s @ [ValuesUpdate spreadsheetId sheet ''USER_ENTERED'' data]"
    by (simp add: await_resolve_requests floating_requests updateCells_run fullRange_falsy)
next
  assume r: "r \<noteq> []"
  show "requests (snd (sheetData spreadsheetId sheet (Some r) ctxt s)) =
        requests s @ [ValuesGet spreadsheetId (sheet @ ''!'' @ r)]"
    by (simp add: sheetData_run fullRange_truthy [OF r])
  show "requests (snd (updateCells spreadsheetId sheet (Some r) data ctxt s)) =
        requests s @ [ValuesUpdate spreadsheetId (sheet @ ''!'' @ r) ''USER_ENTERED'' data]"
    by (simp add: updateCells_run fullRange_truthy [OF r])
qed

theorem empty_range_is_whole_sheet_witness:
  "sheetData ''doc'' ''Sheet1'' (Some []) demo_ctx session0 =
     (Fulfilled [[''a'', ''b'']], session0\<lparr>requests := [ValuesGet ''doc'' ''Sheet1'']\<rparr>) \<and>
   requests (snd (tool_callback (UpdateCells ''doc'' ''Sheet1'' [] [[''x'']]) demo_ctx session0)) =
     [ValuesUpdate ''doc'' ''Sheet1'' ''USER_ENTERED'' [[''x'']]] \<and>
   requests (snd (sheetData ''doc'' ''Sheet1'' (Some ''A1:B2'') demo_ctx session0)) =
     [ValuesGet ''doc'' ''Sheet1!A1:B2'']"
proof -
  have ne: "''A1:B2'' \<noteq> []"
    by simp
  note T = empty_range_is_whole_sheet
    [of "''doc''" "''Sheet1''" demo_ctx session0 "[[''x'']]" "''A1:B2''"]
  show ?thesis
    using T ne by (simp add: session0_def demo_ctx_def demo_sheets_def)
qed

section \<open>Batch updates\<close>

lemma batchUpdate_run:
  "batchUpdate spreadsheetId sheet ranges ctxt s =
     (values_batchUpdate (sheets ctxt) (requests s) spreadsheetId
        (map (\<lambda>(r, vals). (sheet @ ''!'' @ r, vals)) (object_entries ranges)),
      s\<lparr>requests := requests s @
          [ValuesBatchUpdate spreadsheetId ''USER_ENTERED''
             (map (\<lambda>(r, vals). (sheet @ ''!'' @ r, vals)) (object_entries ranges))]\<rparr>)"
  by (simp add: batchUpdate_def async_defs Let_def split: settled.splits)

lemma object_entries_keys:
  "map fst (object_entries xs) = map string_of_nat [0..<length xs]"
  "map snd (object_entries xs) = xs"
  by (simp_all add: object_entries_def)

text \<open>
  Claim C7, on the code. For the array of the two inner arrays \<open>["A1", "x"]\<close> and
  \<open>["B2", "y"]\<close> on sheet \<open>Sheet1\<close>, batchUpdate sends one batch request, user-entered, with one entry per inner array; but
  each entry is addressed to the sheet name followed by the position of the inner array
  (\<open>Sheet1!0\<close>, \<open>Sheet1!1\<close>), the key that \<open>Object.entries\<close> gives an array element, and
  the whole inner array, its first element included, is sent as the values.
\<close>

theorem batchUpdate_addresses_indices:
  "requests (snd (batchUpdate ''doc'' ''Sheet1'' [[''A1'', ''x''], [''B2'', ''y'']] demo_ctx session0)) =
     [ValuesBatchUpdate ''doc'' ''USER_ENTERED''
        [(''Sheet1!0'', [''A1'', ''x'']), (''Sheet1!1'', [''B2'', ''y''])]]"
  by (simp add: batchUpdate_run object_entries_def session0_def digit_char_def upt_rec [of 0])

section \<open>Sharing with several recipients\<close>







section \<open>Creating a spreadsheet\<close>

lemma createSpreadSheet_result:
  assumes "spreadsheets_create (sheets ctxt) (requests s) title = Fulfilled (Some data)"
    and "ss_spreadsheetId data = Some newId" and "newId \<noteq> []"
  shows "fst (createSpreadSheet title ctxt s) = Fulfilled (newId, ss_spreadsheetUrl data)"
  using assms
  by (simp add: createSpreadSheet_def async_defs truthy_def Let_def split: settled.splits prod.splits)

lemma createSpreadSheet_first_requests:
  assumes "spreadsheets_create (sheets ctxt) (requests s) title = Fulfilled (Some data)"
    and "ss_spreadsheetId data = Some newId" and "newId \<noteq> []"
  shows "take 2 (drop (length (requests s)) (requests (snd (createSpreadSheet title ctxt s)))) =
     [SpreadsheetsCreate title, PermissionsCreate newId ''user'' ''writer'' ''process.env.EMAIL_ID'' True]"
  using assms
  by (simp add: createSpreadSheet_def async_defs truthy_def Let_def split: settled.splits prod.splits)

lemma createSpreadSheet_grant_logged:
  assumes "spreadsheets_create (sheets ctxt) (requests s) title = Fulfilled (Some data)"
    and "ss_spreadsheetId data = Some newId" and "newId \<noteq> []"
    and "permissions_create (drive ctxt) (requests s @ [SpreadsheetsCreate title]) newId ''writer''
           ''process.env.EMAIL_ID'' = Rejected e"
  shows "ConsoleLog ''Error granting permissions:'' (Some e) \<in> set (console (snd (createSpreadSheet title ctxt s)))"
  using assms
  by (simp add: createSpreadSheet_def async_defs truthy_def Let_def split: settled.splits prod.splits)

lemma createSpreadSheet_no_folder:
  assumes "spreadsheets_create (sheets ctxt) (requests s) title = Fulfilled (Some data)"
    and "ss_spreadsheetId data = Some newId" and "newId \<noteq> []"
    and "\<not> truthy (folderId ctxt)"
  shows "requests (snd (createSpreadSheet title ctxt s)) =
     requests s @ [SpreadsheetsCreate title, PermissionsCreate newId ''user'' ''writer'' ''process.env.EMAIL_ID'' True]"
  using assms
  by (simp add: createSpreadSheet_def async_defs truthy_def Let_def split: settled.splits prod.splits)

lemma createSpreadSheet_move:
  assumes "spreadsheets_create (sheets ctxt) (requests s) title = Fulfilled (Some data)"
    and "ss_spreadsheetId data = Some newId" and "newId \<noteq> []"
    and "folderId ctxt = Some folder" and "folder \<noteq> []"
    and "files_get (drive ctxt)
           (requests s @ [SpreadsheetsCreate title,
              PermissionsCreate newId ''user'' ''writer'' ''process.env.EMAIL_ID'' True]) newId = Fulfilled file"
  shows "requests (snd (createSpreadSheet title ctxt s)) =
     requests s @ [SpreadsheetsCreate title,
       PermissionsCreate newId ''user'' ''writer'' ''process.env.EMAIL_ID'' True,
       FilesGet newId,
       FilesUpdate newId folder (case parents file of None \<Rightarrow> [] | Some ps \<Rightarrow> js_join ps)]"
  using assms
  by (simp add: createSpreadSheet_def async_defs truthy_def Let_def split: settled.splits prod.splits)

lemma createSpreadSheet_get_failure_logged:
  assumes "spreadsheets_create (sheets ctxt) (requests s) title = Fulfilled (Some data)"
    and "ss_spreadsheetId data = Some newId" and "newId \<noteq> []"
    and "folderId ctxt = Some folder" and "folder \<noteq> []"
    and "files_get (drive ctxt)
           (requests s @ [SpreadsheetsCreate title,
              PermissionsCreate newId ''user'' ''writer'' ''process.env.EMAIL_ID'' True]) newId = Rejected e"
  shows "ConsoleError ''Error moving to folder:'' (Some e) \<in> set (console (snd (createSpreadSheet title ctxt s)))"
  using assms
  by (simp add: createSpreadSheet_def async_defs truthy_def Let_def split: settled.splits prod.splits)

lemma createSpreadSheet_update_failure_logged:
  assumes "spreadsheets_create (sheets ctxt) (requests s) title = Fulfilled (Some data)"
    and "ss_spreadsheetId data = Some newId" and "newId \<noteq> []"
    and "folderId ctxt = Some folder" and "folder \<noteq> []"
    and "files_get (drive ctxt)
           (requests s @ [SpreadsheetsCreate title,
              PermissionsCreate newId ''user'' ''writer'' ''process.env.EMAIL_ID'' True]) newId = Fulfilled file"
    and "files_update (drive ctxt)
           (requests s @ [SpreadsheetsCreate title,
              PermissionsCreate newId ''user'' ''writer'' ''process.env.EMAIL_ID'' True, FilesGet newId])
           newId folder (case parents file of None \<Rightarrow> [] | Some ps \<Rightarrow> js_join ps) = Rejected e"
  shows "ConsoleError ''Error moving to folder:'' (Some e) \<in> set (console (snd (createSpreadSheet title ctxt s)))"
  using assms
  by (simp add: createSpreadSheet_def async_defs truthy_def Let_def split: settled.splits prod.splits)

text \<open>
  Claim C8, on the code. Once the collaborator has created the spreadsheet and returned a
  non-empty newId, createSpreadSheet returns that newId and the link whatever the Drive calls
  answer; a rejected grant is logged; with no folder newId configured nothing more is
  requested; with one, the parents are read and replaced by the folder, and a failure of
  either call is logged. But the grant it requests is always for the literal address
  \<open>process.env.EMAIL_ID\<close>: the text of the expression, not a configured identity.
\<close>

theorem create_side_effects:
  assumes created: "spreadsheets_create (sheets ctxt) (requests s) title = Fulfilled (Some data)"
    and newId: "ss_spreadsheetId data = Some newId" "newId \<noteq> []"
  shows "fst (createSpreadSheet title ctxt s) = Fulfilled (newId, ss_spreadsheetUrl data) \<and>
     take 2 (drop (length (requests s)) (requests (snd (createSpreadSheet title ctxt s)))) =
       [SpreadsheetsCreate title, PermissionsCreate newId ''user'' ''writer'' ''process.env.EMAIL_ID'' True] \<and>
     (\<forall>e. permissions_create (drive ctxt) (requests s @ [SpreadsheetsCreate title]) newId ''writer''
             ''process.env.EMAIL_ID'' = Rejected e \<longrightarrow>
          ConsoleLog ''Error granting permissions:'' (Some e) \<in>
            set (console (snd (createSpreadSheet title ctxt s)))) \<and>
     (\<not> truthy (folderId ctxt) \<longrightarrow>
        requests (snd (createSpreadSheet title ctxt s)) =
          requests s @ [SpreadsheetsCreate title,
            PermissionsCreate newId ''user'' ''writer'' ''process.env.EMAIL_ID'' True]) \<and>
     (\<forall>folder. folderId ctxt = Some folder \<and> folder \<noteq> [] \<longrightarrow>
        (case files_get (drive ctxt)
                (requests s @ [SpreadsheetsCreate title,
                   PermissionsCreate newId ''user'' ''writer'' ''process.env.EMAIL_ID'' True]) newId of
           Rejected e \<Rightarrow>
             ConsoleError ''Error moving to folder:'' (Some e) \<in>
               set (console (snd (createSpreadSheet title ctxt s)))
         | Fulfilled file \<Rightarrow>
             requests (snd (createSpreadSheet title ctxt s)) =
               requests s @ [SpreadsheetsCreate title,
                 PermissionsCreate newId ''user'' ''writer'' ''process.env.EMAIL_ID'' True,
                 FilesGet newId,
                 FilesUpdate newId folder (case parents file of None \<Rightarrow> [] | Some ps \<Rightarrow> js_join ps)] \<and>
             (\<forall>e. files_update (drive ctxt)
                     (requests s @ [SpreadsheetsCreate title,
                        PermissionsCreate newId ''user'' ''writer'' ''process.env.EMAIL_ID'' True, FilesGet newId])
                     newId folder (case parents file of None \<Rightarrow> [] | Some ps \<Rightarrow> js_join ps) = Rejected e \<longrightarrow>
                  ConsoleError ''Error moving to folder:'' (Some e) \<in>
                    set (console (snd (createSpreadSheet title ctxt s))))))"
proof (intro conjI allI impI)
  show "fst (createSpreadSheet title ctxt s) = Fulfilled (newId, ss_spreadsheetUrl data)"
    by (rule createSpreadSheet_result [OF created newId])
  show "take 2 (drop (length (requests s)) (requests (snd (createSpreadSheet title ctxt s)))) =
       [SpreadsheetsCreate title, PermissionsCreate newId ''user'' ''writer'' ''process.env.EMAIL_ID'' True]"
    by (rule createSpreadSheet_first_requests [OF created newId])
next
  fix e
  assume "permissions_create (drive ctxt) (requests s @ [SpreadsheetsCreate title]) newId ''writer''
             ''process.env.EMAIL_ID'' = Rejected e"
  then show "ConsoleLog ''Error granting permissions:'' (Some e) \<in>
            set (console (snd (createSpreadSheet title ctxt s)))"
    by (rule createSpreadSheet_grant_logged [OF created newId])
next
  assume "\<not> truthy (folderId ctxt)"
  then show "requests (snd (createSpreadSheet title ctxt s)) =
          requests s @ [SpreadsheetsCreate title,
            PermissionsCreate newId ''user'' ''writer'' ''process.env.EMAIL_ID'' True]"
    by (rule createSpreadSheet_no_folder [OF created newId])
next
  fix folder
  assume f: "folderId ctxt = Some folder \<and> folder \<noteq> []"
  then have f1: "folderId ctxt = Some folder" and f2: "folder \<noteq> []"
    by simp_all
  show "case files_get (drive ctxt)
                (requests s @ [SpreadsheetsCreate title,
                   PermissionsCreate newId ''user'' ''writer'' ''process.env.EMAIL_ID'' True]) newId of
           Rejected e \<Rightarrow>
             ConsoleError ''Error moving to folder:'' (Some e) \<in>
               set (console (snd (createSpreadSheet title ctxt s)))
         | Fulfilled file \<Rightarrow>
             requests (snd (createSpreadSheet title ctxt s)) =
               requests s @ [SpreadsheetsCreate title,
                 PermissionsCreate newId ''user'' ''writer'' ''process.env.EMAIL_ID'' True,
                 FilesGet newId,
                 FilesUpdate newId folder (case parents file of None \<Rightarrow> [] | Some ps \<Rightarrow> js_join ps)] \<and>
             (\<forall>e. files_update (drive ctxt)
                     (requests s @ [SpreadsheetsCreate title,
                        PermissionsCreate newId ''user'' ''writer'' ''process.env.EMAIL_ID'' True, FilesGet newId])
                     newId folder (case parents file of None \<Rightarrow> [] | Some ps \<Rightarrow> js_join ps) = Rejected e \<longrightarrow>
                  ConsoleError ''Error moving to folder:'' (Some e) \<in>
                    set (console (snd (createSpreadSheet title ctxt s))))"
  proof (cases "files_get (drive ctxt)
                (requests s @ [SpreadsheetsCreate title,
                   PermissionsCreate newId ''user'' ''writer'' ''process.env.EMAIL_ID'' True]) newId")
    case (Rejected e)
    then show ?thesis
      using createSpreadSheet_get_failure_logged [OF created newId f1 f2 Rejected] by simp
  next
    case (Fulfilled got)
    then show ?thesis
      using createSpreadSheet_move [OF created newId f1 f2 Fulfilled]
        createSpreadSheet_update_failure_logged [OF created newId f1 f2 Fulfilled]
      by simp
  qed
qed

theorem create_side_effects_witness:
  "createSpreadSheet ''Budget'' flaky_ctx session0 =
     (Fulfilled (''doc'', Defined ''https://sheets.example/doc''),
      \<lparr>requests = [SpreadsheetsCreate ''Budget'',
          PermissionsCreate ''doc'' ''user'' ''writer'' ''process.env.EMAIL_ID'' True, FilesGet ''doc''],
       console = [ConsoleLog ''Error granting permissions:'' (Some quota),
          ConsoleError ''Error moving to folder:'' (Some quota)],
       unhandled = []\<rparr>) \<and>
   fst (createSpreadSheet ''Budget'' demo_ctx session0) =
     Fulfilled (''doc'', Defined ''https://sheets.example/doc'') \<and>
   requests (snd (createSpreadSheet ''Budget'' demo_ctx session0)) =
     [SpreadsheetsCreate ''Budget'',
      PermissionsCreate ''doc'' ''user'' ''writer'' ''process.env.EMAIL_ID'' True,
      FilesGet ''doc'', FilesUpdate ''doc'' ''folder1'' ''root'']"
proof -
  have c1: "spreadsheets_create (sheets demo_ctx) (requests session0) ''Budget'' = Fulfilled (Some demo_spreadsheet)"
    by (simp add: demo_ctx_def demo_sheets_def)
  have i1: "ss_spreadsheetId demo_spreadsheet = Some ''doc''"
    by (simp add: demo_spreadsheet_def)
  have i2: "''doc'' \<noteq> []"
    by simp
  have f: "folderId demo_ctx = Some ''folder1'' \<and> ''folder1'' \<noteq> []"
    by (simp add: demo_ctx_def)
  note T = create_side_effects [OF c1 i1 i2]
  have a: "fst (createSpreadSheet ''Budget'' demo_ctx session0) =
      Fulfilled (''doc'', Defined ''https://sheets.example/doc'')"
    using T by (simp add: demo_spreadsheet_def)
  have b: "requests (snd (createSpreadSheet ''Budget'' demo_ctx session0)) =
     [SpreadsheetsCreate ''Budget'',
      PermissionsCreate ''doc'' ''user'' ''writer'' ''process.env.EMAIL_ID'' True,
      FilesGet ''doc'', FilesUpdate ''doc'' ''folder1'' ''root'']"
    using T [THEN conjunct2, THEN conjunct2, THEN conjunct2, THEN conjunct2, rule_format, OF f]
    by (simp add: demo_ctx_def demo_drive_def session0_def)
  have c: "createSpreadSheet ''Budget'' flaky_ctx session0 =
     (Fulfilled (''doc'', Defined ''https://sheets.example/doc''),
      \<lparr>requests = [SpreadsheetsCreate ''Budget'',
          PermissionsCreate ''doc'' ''user'' ''writer'' ''process.env.EMAIL_ID'' True, FilesGet ''doc''],
       console = [ConsoleLog ''Error granting permissions:'' (Some quota),
          ConsoleError ''Error moving to folder:'' (Some quota)],
       unhandled = []\<rparr>)"
    by (simp add: createSpreadSheet_def async_defs truthy_def Let_def flaky_ctx_def demo_sheets_def
        failing_drive_def demo_spreadsheet_def session0_def)
  show ?thesis
    using a b c by simp
qed

section \<open>The tools that do not await their operation\<close>

lemma unawaited_envelopes:
  "fst (tool_callback (UpdateCells spreadsheetId sheet rng data) ctxt s) =
     Fulfilled (text_envelope ''Data was updated successfully.[object Promise]'')"
  "fst (tool_callback (BatchUpdate spreadsheetId sheet ranges) ctxt s) =
     Fulfilled (text_envelope ''The values were updated: [object Promise]'')"
  "fst (tool_callback (AddRows spreadsheetId sheet count start) ctxt s) =
     Fulfilled (text_envelope ''The rows were added successfully!'')"
  "fst (tool_callback (AddColumns spreadsheetId sheet count start) ctxt s) =
     Fulfilled (text_envelope ''The columns were added successfully!'')"
  "fst (tool_callback (CopySheet srcSpreadsheet srcSheet dstSpreadsheet dstSheet) ctxt s) =
     Fulfilled (text_envelope ''Sheet was successfully copied to destination sheet. [object Promise]'')"
  by (simp_all add: await_def resolve_def floating_def object_Promise_def split: prod.splits settled.splits)

text \<open>
  Claim C4, on the code. The updateCells, batchUpdate, addRows, addColumns and copySheet
  tools call their operation without awaiting it. With a collaborator that rejects every
  call, each of them still answers with its success text (three of them with the rendering
  of the pending promise, \<open>[object Promise]\<close>, in place of the result), and the
  operation's error is left as an unhandled rejection. With a collaborator that answers,
  addRows on a title that no sheet has returns \<open>Sheet Not found\<close>, and the tool answers
  that the rows were added.
\<close>

theorem unawaited_tools_drop_result:
  "tool_callback (UpdateCells ''doc'' ''Sheet1'' ''A1'' [[''x'']]) failing_ctx session0 =
     (Fulfilled (text_envelope ''Data was updated successfully.[object Promise]''),
      \<lparr>requests = [ValuesUpdate ''doc'' ''Sheet1!A1'' ''USER_ENTERED'' [[''x'']]], console = [],
       unhandled = [quota]\<rparr>) \<and>
   tool_callback (BatchUpdate ''doc'' ''Sheet1'' [[''A1'', ''x'']]) failing_ctx session0 =
     (Fulfilled (text_envelope ''The values were updated: [object Promise]''),
      \<lparr>requests = [ValuesBatchUpdate ''doc'' ''USER_ENTERED'' [(''Sheet1!0'', [''A1'', ''x''])]],
       console = [], unhandled = [quota]\<rparr>) \<and>
   tool_callback (AddRows ''doc'' ''Sheet1'' (Num 3) (Num 0)) failing_ctx session0 =
     (Fulfilled (text_envelope ''The rows were added successfully!''),
      \<lparr>requests = [SpreadsheetsGet ''doc''], console = [], unhandled = [quota]\<rparr>) \<and>
   tool_callback (AddColumns ''doc'' ''Sheet1'' (Num 3) (Num 0)) failing_ctx session0 =
     (Fulfilled (text_envelope ''The columns were added successfully!''),
      \<lparr>requests = [SpreadsheetsGet ''doc''], console = [], unhandled = [quota]\<rparr>) \<and>
   tool_callback (CopySheet ''doc'' ''Sheet1'' ''dst'' ''Copy'') failing_ctx session0 =
     (Fulfilled (text_envelope ''Sheet was successfully copied to destination sheet. [object Promise]''),
      \<lparr>requests = [SpreadsheetsGet ''doc''], console = [], unhandled = [quota]\<rparr>) \<and>
   fst (addRows ''doc'' ''Missing'' (Num 3) (Num 0) demo_ctx session0) = Fulfilled (Message ''Sheet Not found'') \<and>
   tool_callback (AddRows ''doc'' ''Missing'' (Num 3) (Num 0)) demo_ctx session0 =
     (Fulfilled (text_envelope ''The rows were added successfully!''),
      \<lparr>requests = [SpreadsheetsGet ''doc''], console = [], unhandled = []\<rparr>)"
proof (intro conjI)
  show "tool_callback (UpdateCells ''doc'' ''Sheet1'' ''A1'' [[''x'']]) failing_ctx session0 =
     (Fulfilled (text_envelope ''Data was updated successfully.[object Promise]''),
      \<lparr>requests = [ValuesUpdate ''doc'' ''Sheet1!A1'' ''USER_ENTERED'' [[''x'']]], console = [],
       unhandled = [quota]\<rparr>)"
    by (simp add: updateCells_def fullRange_def truthy_def async_defs object_Promise_def
        failing_ctx_def failing_sheets_def session0_def)
  show "tool_callback (BatchUpdate ''doc'' ''Sheet1'' [[''A1'', ''x'']]) failing_ctx session0 =
     (Fulfilled (text_envelope ''The values were updated: [object Promise]''),
      \<lparr>requests = [ValuesBatchUpdate ''doc'' ''USER_ENTERED'' [(''Sheet1!0'', [''A1'', ''x''])]],
       console = [], unhandled = [quota]\<rparr>)"
    by (simp add: batchUpdate_def object_entries_def digit_char_def async_defs object_Promise_def
        failing_ctx_def failing_sheets_def session0_def)
  show "tool_callback (AddRows ''doc'' ''Sheet1'' (Num 3) (Num 0)) failing_ctx session0 =
     (Fulfilled (text_envelope ''The rows were added successfully!''),
      \<lparr>requests = [SpreadsheetsGet ''doc''], console = [], unhandled = [quota]\<rparr>)"
    by (simp add: addRows_def async_defs failing_ctx_def failing_sheets_def session0_def)
  show "tool_callback (AddColumns ''doc'' ''Sheet1'' (Num 3) (Num 0)) failing_ctx session0 =
     (Fulfilled (text_envelope ''The columns were added successfully!''),
      \<lparr>requests = [SpreadsheetsGet ''doc''], console = [], unhandled = [quota]\<rparr>)"
    by (simp add: addColumns_def async_defs failing_ctx_def failing_sheets_def session0_def)
  show "tool_callback (CopySheet ''doc'' ''Sheet1'' ''dst'' ''Copy'') failing_ctx session0 =
     (Fulfilled (text_envelope ''Sheet was successfully copied to destination sheet. [object Promise]''),
      \<lparr>requests = [SpreadsheetsGet ''doc''], console = [], unhandled = [quota]\<rparr>)"
    by (simp add: copySheet_def async_defs object_Promise_def failing_ctx_def failing_sheets_def
        session0_def)
  have nf: "find_sheet (ss_sheets demo_spreadsheet) ''Missing'' = None"
    by (simp add: demo_spreadsheet_def demo_tabs_def demo_sheet_def find_sheet_def title_of_def)
  show "fst (addRows ''doc'' ''Missing'' (Num 3) (Num 0) demo_ctx session0) = Fulfilled (Message ''Sheet Not found'')"
    using nf
    by (simp add: addRows_def async_defs demo_ctx_def demo_sheets_def session0_def)
  show "tool_callback (AddRows ''doc'' ''Missing'' (Num 3) (Num 0)) demo_ctx session0 =
     (Fulfilled (text_envelope ''The rows were added successfully!''),
      \<lparr>requests = [SpreadsheetsGet ''doc''], console = [], unhandled = []\<rparr>)"
    using nf
    by (simp add: addRows_def async_defs demo_ctx_def demo_sheets_def session0_def)
qed

section \<open>Errors of an operation behind a tool\<close>

lemma create_callback_result:
  "fst (tool_callback (Create title) ctxt s) =
     Fulfilled (text_envelope
       (case fst (createSpreadSheet title ctxt
                    (s\<lparr>console := console s @
                        [ConsoleLog (''Creating spreadsheet with title: '' @ title) None]\<rparr>)) of
          Fulfilled (newId, link) \<Rightarrow>
            ''Created spreadsheet successfully with id: '' @ newId @ ''. Visit at '' @ render_nullable link
        | Rejected e \<Rightarrow> ''Failed to create spreadsheet: '' @ error_toString e))"
  by (simp add: await_def resolve_def try_catch_def console_log_def console_error_def
      split: prod.splits settled.splits)

lemma floating_rejected:
  assumes "fst (m s) = Rejected e"
  shows "await (floating m) (\<lambda>_. resolve x) s =
     (Fulfilled x, (snd (m s))\<lparr>unhandled := unhandled (snd (m s)) @ [e]\<rparr>)"
  using assms by (cases "m s") (simp add: await_def floating_def resolve_def)

text \<open>
  Claim C2, on the code. The create callback catches: an error thrown by
  createSpreadSheet becomes the text item \<open>Failed to create spreadsheet:\<close> followed by the
  error. The callbacks of updateCells, batchUpdate, addRows, addColumns and copySheet do
  not await their operation: when it throws the error \<open>e\<close>, the callback has already
  returned its envelope with the success text, and \<open>e\<close> is caught by nothing and converted
  into no text item; it is left as an unhandled rejection.
\<close>

theorem unawaited_errors_escape:
  "(fst (createSpreadSheet title ctxt
           (s\<lparr>console := console s @
               [ConsoleLog (''Creating spreadsheet with title: '' @ title) None]\<rparr>)) = Rejected e \<longrightarrow>
      fst (tool_callback (Create title) ctxt s) =
        Fulfilled (text_envelope (''Failed to create spreadsheet: '' @ error_toString e))) \<and>
   (fst (updateCells spreadsheetId sheet (Some rng) data ctxt s) = Rejected e \<longrightarrow>
      tool_callback (UpdateCells spreadsheetId sheet rng data) ctxt s =
        (Fulfilled (text_envelope ''Data was updated successfully.[object Promise]''),
         (snd (updateCells spreadsheetId sheet (Some rng) data ctxt s))
           \<lparr>unhandled := unhandled (snd (updateCells spreadsheetId sheet (Some rng) data ctxt s)) @ [e]\<rparr>)) \<and>
   (fst (batchUpdate spreadsheetId sheet ranges ctxt s) = Rejected e \<longrightarrow>
      tool_callback (BatchUpdate spreadsheetId sheet ranges) ctxt s =
        (Fulfilled (text_envelope ''The values were updated: [object Promise]''),
         (snd (batchUpdate spreadsheetId sheet ranges ctxt s))
           \<lparr>unhandled := unhandled (snd (batchUpdate spreadsheetId sheet ranges ctxt s)) @ [e]\<rparr>)) \<and>
   (fst (addRows spreadsheetId sheet count start ctxt s) = Rejected e \<longrightarrow>
      tool_callback (AddRows spreadsheetId sheet count start) ctxt s =
        (Fulfilled (text_envelope ''The rows were added successfully!''),
         (snd (addRows spreadsheetId sheet count start ctxt s))
           \<lparr>unhandled := unhandled (snd (addRows spreadsheetId sheet count start ctxt s)) @ [e]\<rparr>)) \<and>
   (fst (addColumns spreadsheetId sheet count start ctxt s) = Rejected e \<longrightarrow>
      tool_callback (AddColumns spreadsheetId sheet count start) ctxt s =
        (Fulfilled (text_envelope ''The columns were added successfully!''),
         (snd (addColumns spreadsheetId sheet count start ctxt s))
           \<lparr>unhandled := unhandled (snd (addColumns spreadsheetId sheet count start ctxt s)) @ [e]\<rparr>)) \<and>
   (fst (copySheet spreadsheetId sheet dstSpreadsheet dstSheet ctxt s) = Rejected e \<longrightarrow>
      tool_callback (CopySheet spreadsheetId sheet dstSpreadsheet dstSheet) ctxt s =
        (Fulfilled (text_envelope ''Sheet was successfully copied to destination sheet. [object Promise]''),
         (snd (copySheet spreadsheetId sheet dstSpreadsheet dstSheet ctxt s))
           \<lparr>unhandled :=
              unhandled (snd (copySheet spreadsheetId sheet dstSpreadsheet dstSheet ctxt s)) @ [e]\<rparr>))"
proof (intro conjI impI)
  assume "fst (createSpreadSheet title ctxt
           (s\<lparr>console := console s @
               [ConsoleLog (''Creating spreadsheet with title: '' @ title) None]\<rparr>)) = Rejected e"
  then show "fst (tool_callback (Create title) ctxt s) =
        Fulfilled (text_envelope (''Failed to create spreadsheet: '' @ error_toString e))"
    unfolding create_callback_result by (simp only: settled.case)
next
  assume "fst (updateCells spreadsheetId sheet (Some rng) data ctxt s) = Rejected e"
  then show "tool_callback (UpdateCells spreadsheetId sheet rng data) ctxt s =
        (Fulfilled (text_envelope ''Data was updated successfully.[object Promise]''),
         (snd (updateCells spreadsheetId sheet (Some rng) data ctxt s))
           \<lparr>unhandled := unhandled (snd (updateCells spreadsheetId sheet (Some rng) data ctxt s)) @ [e]\<rparr>)"
    by (simp add: floating_rejected object_Promise_def)
next
  assume "fst (batchUpdate spreadsheetId sheet ranges ctxt s) = Rejected e"
  then show "tool_callback (BatchUpdate spreadsheetId sheet ranges) ctxt s =
        (Fulfilled (text_envelope ''The values were updated: [object Promise]''),
         (snd (batchUpdate spreadsheetId sheet ranges ctxt s))
           \<lparr>unhandled := unhandled (snd (batchUpdate spreadsheetId sheet ranges ctxt s)) @ [e]\<rparr>)"
    by (simp add: floating_rejected object_Promise_def)
next
  assume "fst (addRows spreadsheetId sheet count start ctxt s) = Rejected e"
  then show "tool_callback (AddRows spreadsheetId sheet count start) ctxt s =
        (Fulfilled (text_envelope ''The rows were added successfully!''),
         (snd (addRows spreadsheetId sheet count start ctxt s))
           \<lparr>unhandled := unhandled (snd (addRows spreadsheetId sheet count start ctxt s)) @ [e]\<rparr>)"
    by (simp add: floating_rejected)
next
  assume "fst (addColumns spreadsheetId sheet count start ctxt s) = Rejected e"
  then show "tool_callback (AddColumns spreadsheetId sheet count start) ctxt s =
        (Fulfilled (text_envelope ''The columns were added successfully!''),
         (snd (addColumns spreadsheetId sheet count start ctxt s))
           \<lparr>unhandled := unhandled (snd (addColumns spreadsheetId sheet count start ctxt s)) @ [e]\<rparr>)"
    by (simp add: floating_rejected)
next
  assume "fst (copySheet spreadsheetId sheet dstSpreadsheet dstSheet ctxt s) = Rejected e"
  then show "tool_callback (CopySheet spreadsheetId sheet dstSpreadsheet dstSheet) ctxt s =
        (Fulfilled (text_envelope ''Sheet was successfully copied to destination sheet. [object Promise]''),
         (snd (copySheet spreadsheetId sheet dstSpreadsheet dstSheet ctxt s))
           \<lparr>unhandled :=
              unhandled (snd (copySheet spreadsheetId sheet dstSpreadsheet dstSheet ctxt s)) @ [e]\<rparr>)"
    by (simp add: floating_rejected object_Promise_def)
qed

theorem unawaited_errors_escape_witness:
  "tool_callback (AddRows ''doc'' ''Sheet1'' (Num 3) (Num 0)) readonly_ctx session0 =
     (Fulfilled (text_envelope ''The rows were added successfully!''),
      \<lparr>requests = [SpreadsheetsGet ''doc'',
          SpreadsheetsBatchUpdate ''doc'' [InsertDimension (Some 7) ROWS (Num 0) (Num 3) False]],
       console = [], unhandled = [forbidden]\<rparr>) \<and>
   tool_callback (UpdateCells ''doc'' ''Sheet1'' ''A1'' [[''x'']]) readonly_ctx session0 =
     (Fulfilled (text_envelope ''Data was updated successfully.[object Promise]''),
      \<lparr>requests = [ValuesUpdate ''doc'' ''Sheet1!A1'' ''USER_ENTERED'' [[''x'']]],
       console = [], unhandled = [forbidden]\<rparr>) \<and>
   fst (tool_callback (Create ''Budget'') failing_ctx session0) =
     Fulfilled (text_envelope ''Failed to create spreadsheet: Error: Quota exceeded'')"
proof -
  have get: "spreadsheets_get (sheets readonly_ctx) (requests session0) ''doc'' = Fulfilled demo_spreadsheet"
    by (simp add: readonly_ctx_def readonly_sheets_def demo_sheets_def)
  have f1: "find_sheet (ss_sheets demo_spreadsheet) ''Sheet1'' = Some (demo_sheet ''Sheet1'' 7)"
    by (simp add: demo_spreadsheet_def demo_tabs_def demo_sheet_def find_sheet_def title_of_def)
  have sum: "js_add (Num 0) (Num 3) = Num 3"
    using js_add_safe_int [of 0 3] by simp
  have rows: "addRows ''doc'' ''Sheet1'' (Num 3) (Num 0) readonly_ctx session0 =
     (Rejected forbidden,
      \<lparr>requests = [SpreadsheetsGet ''doc'',
          SpreadsheetsBatchUpdate ''doc'' [InsertDimension (Some 7) ROWS (Num 0) (Num 3) False]],
       console = [], unhandled = []\<rparr>)"
    unfolding addRows_found [OF get f1]
    by (simp add: or_zero_def js_truthy_def sum readonly_ctx_def readonly_sheets_def session0_def
        demo_sheet_def sheetId_of_def del: js_add.simps)
  have cells: "updateCells ''doc'' ''Sheet1'' (Some ''A1'') [[''x'']] readonly_ctx session0 =
     (Rejected forbidden,
      \<lparr>requests = [ValuesUpdate ''doc'' ''Sheet1!A1'' ''USER_ENTERED'' [[''x'']]],
       console = [], unhandled = []\<rparr>)"
    by (simp add: updateCells_run fullRange_def truthy_def readonly_ctx_def readonly_sheets_def
        session0_def)
  have create: "fst (createSpreadSheet ''Budget'' failing_ctx
      (session0\<lparr>console := console session0 @
          [ConsoleLog (''Creating spreadsheet with title: '' @ ''Budget'') None]\<rparr>)) = Rejected quota"
    by (simp add: createSpreadSheet_def async_defs failing_ctx_def failing_sheets_def)
  have r: "fst (addRows ''doc'' ''Sheet1'' (Num 3) (Num 0) readonly_ctx session0) = Rejected forbidden"
    by (simp add: rows)
  have c: "fst (updateCells ''doc'' ''Sheet1'' (Some ''A1'') [[''x'']] readonly_ctx session0) = Rejected forbidden"
    by (simp add: cells)
  have a1: "tool_callback (AddRows ''doc'' ''Sheet1'' (Num 3) (Num 0)) readonly_ctx session0 =
     (Fulfilled (text_envelope ''The rows were added successfully!''),
      (snd (addRows ''doc'' ''Sheet1'' (Num 3) (Num 0) readonly_ctx session0))
        \<lparr>unhandled := unhandled (snd (addRows ''doc'' ''Sheet1'' (Num 3) (Num 0) readonly_ctx session0)) @
           [forbidden]\<rparr>)"
    using unawaited_errors_escape
      [where e = forbidden and ctxt = readonly_ctx and s = session0 and spreadsheetId = "''doc''"
        and sheet = "''Sheet1''" and count = "Num 3" and start = "Num 0"] r
    by blast
  have a2: "tool_callback (UpdateCells ''doc'' ''Sheet1'' ''A1'' [[''x'']]) readonly_ctx session0 =
     (Fulfilled (text_envelope ''Data was updated successfully.[object Promise]''),
      (snd (updateCells ''doc'' ''Sheet1'' (Some ''A1'') [[''x'']] readonly_ctx session0))
        \<lparr>unhandled :=
           unhandled (snd (updateCells ''doc'' ''Sheet1'' (Some ''A1'') [[''x'']] readonly_ctx session0)) @
           [forbidden]\<rparr>)"
    using unawaited_errors_escape
      [where e = forbidden and ctxt = readonly_ctx and s = session0 and spreadsheetId = "''doc''"
        and sheet = "''Sheet1''" and rng = "''A1''" and data = "[[''x'']]"] c
    by blast
  have a3: "fst (tool_callback (Create ''Budget'') failing_ctx session0) =
     Fulfilled (text_envelope (''Failed to create spreadsheet: '' @ error_toString quota))"
    using unawaited_errors_escape
      [where e = quota and ctxt = failing_ctx and s = session0 and title = "''Budget''"] create
    by blast
  show ?thesis
    unfolding a1 a2 a3 rows cells
    by (simp add: quota_def error_toString_def)
qed

section \<open>Credential resolution\<close>










section \<open>The process: connecting, initialising, serving\<close>

lemma incoming_invocations:
  assumes "connected p" and "exit_code p = None"
  shows "foldl (step env) p (map Incoming rs) =
     p\<lparr>invocations := invocations p @ map (\<lambda>r. (r, context_var p)) rs\<rparr>"
  using assms
proof (induction rs arbitrary: p)
  case Nil
  show ?case by simp
next
  case (Cons r rs)
  let ?p = "p\<lparr>invocations := invocations p @ [(r, context_var p)]\<rparr>"
  have "foldl (step env) p (map Incoming (r # rs)) = foldl (step env) ?p (map Incoming rs)"
    using Cons.prems by simp
  also have "\<dots> = ?p\<lparr>invocations := invocations ?p @ map (\<lambda>r. (r, context_var ?p)) rs\<rparr>"
    using Cons.prems by (intro Cons.IH) simp_all
  finally show ?case by simp
qed

lemma startServer_assigned:
  assumes conn: "connect_transport env = Fulfilled ()"
    and init: "initContext env session0 = (Fulfilled (ContextAssigned c), s')"
  shows "startServer env early late =
     \<lparr>connected = True, context_var = Some c, exit_code = None,
      invocations = map (\<lambda>r. (r, None)) early @ map (\<lambda>r. (r, Some c)) late, effects = s'\<rparr>"
proof -
  let ?p1 = "\<lparr>connected = True, context_var = None, exit_code = None, invocations = [],
             effects = session0\<rparr>"
  let ?p2 = "\<lparr>connected = True, context_var = None, exit_code = None,
             invocations = map (\<lambda>r. (r, None :: ctx option)) early, effects = session0\<rparr>"
  let ?p3 = "\<lparr>connected = True, context_var = Some c, exit_code = None,
             invocations = map (\<lambda>r. (r, None :: ctx option)) early, effects = s'\<rparr>"
  have a: "step env process0 Connect = ?p1"
    using conn by (simp add: process0_def)
  have b: "foldl (step env) ?p1 (map Incoming early) = ?p2"
    by (simp add: incoming_invocations)
  have c: "step env ?p2 InitContext = ?p3"
    using init by simp
  have d: "foldl (step env) ?p3 (map Incoming late) =
      \<lparr>connected = True, context_var = Some c, exit_code = None,
       invocations = map (\<lambda>r. (r, None)) early @ map (\<lambda>r. (r, Some c)) late, effects = s'\<rparr>"
    by (simp add: incoming_invocations)
  have "startServer env early late =
      foldl (step env) (step env (foldl (step env) (step env process0 Connect) (map Incoming early)) InitContext)
        (map Incoming late)"
    by (simp add: startServer_def del: step.simps)
  then show ?thesis
    by (simp only: a b c d)
qed

lemma connect_demo: "connect_transport demo_env = Fulfilled ()"
  by (simp add: demo_env_def)

lemma initContext_demo:
  "initContext demo_env session0 = (Fulfilled (ContextAssigned (make_context demo_env (JWT demo_key))), session0)"
  by (simp add: initContext_def service_account_flow_def settle_def async_defs truthy_def demo_env_def)

text \<open>
  Claim C9, on the code. startServer connects the transport before it calls initContext.
  When the connection succeeds and initContext assigns the context \<open>c\<close>, the variable holds \<open>c\<close> from then on and
  every request delivered afterwards is handled with \<open>c\<close>: one assignment, never replaced
  by a handler. But a request that the connected transport delivers while initContext is
  still pending is handled with no context at all.
\<close>

theorem context_assigned_after_connect:
  assumes "connect_transport env = Fulfilled ()"
    and "initContext env session0 = (Fulfilled (ContextAssigned c), s')"
  shows "context_var (startServer env early late) = Some c \<and>
     invocations (startServer env early late) =
       map (\<lambda>r. (r, None)) early @ map (\<lambda>r. (r, Some c)) late"
  by (simp add: startServer_assigned [OF assms])

theorem context_assigned_after_connect_witness:
  "invocations (startServer demo_env [ListSheets ''doc''] [ListSheets ''doc'']) =
     [(ListSheets ''doc'', None),
      (ListSheets ''doc'', Some (make_context demo_env (JWT demo_key)))]"
  using context_assigned_after_connect [OF connect_demo initContext_demo, of "[ListSheets ''doc'']" "[ListSheets ''doc'']"]
  by simp

end
